theory Spec2Isabelle
  imports Main "HOL-Library.Word"
begin

section \<open>JavaScript strings\<close>

text \<open>
  A JavaScript string is a sequence of 16-bit code units. Both regular expressions of the
  worker are written without the \<^verbatim>\<open>u\<close> flag, so they see code units, not code points.
  \<open>js\<close> turns an ASCII literal of the source into its code units.
\<close>

type_synonym jschar = "16 word"
type_synonym jsstring = "jschar list"

definition js :: "string \<Rightarrow> jsstring" where
  "js s = map of_char s"

definition in_range :: "nat \<Rightarrow> nat \<Rightarrow> jschar \<Rightarrow> bool" where
  "in_range lo hi c = (lo \<le> unat c \<and> unat c \<le> hi)"

text \<open>The class escapes of ECMAScript: \<^verbatim>\<open>\d\<close>, \<^verbatim>\<open>\w\<close>, \<^verbatim>\<open>\s\<close>, and the line terminators
  that \<^verbatim>\<open>.\<close> refuses.\<close>

definition is_digit :: "jschar \<Rightarrow> bool" where
  "is_digit c = in_range 0x30 0x39 c"

definition is_word :: "jschar \<Rightarrow> bool" where
  "is_word c = (in_range 0x41 0x5A c \<or> in_range 0x61 0x7A c \<or> is_digit c \<or> c = 0x5F)"

definition is_line_terminator :: "jschar \<Rightarrow> bool" where
  "is_line_terminator c = (c = 0x0A \<or> c = 0x0D \<or> c = 0x2028 \<or> c = 0x2029)"

definition is_space :: "jschar \<Rightarrow> bool" where
  "is_space c = (c = 0x09 \<or> c = 0x0B \<or> c = 0x0C \<or> c = 0x20 \<or> c = 0xA0 \<or> c = 0x1680
     \<or> in_range 0x2000 0x200A c \<or> c = 0x202F \<or> c = 0x205F \<or> c = 0x3000 \<or> c = 0xFEFF
     \<or> is_line_terminator c)"

abbreviation hyphen :: jschar where "hyphen \<equiv> 0x2D"
abbreviation full_stop :: jschar where "full_stop \<equiv> 0x2E"
abbreviation underscore :: jschar where "underscore \<equiv> 0x5F"
abbreviation comma :: jschar where "comma \<equiv> 0x2C"

section \<open>Regular expressions\<close>

text \<open>
  The fragment of regular expressions the worker uses: character classes, sequence,
  alternation and repetition. \<open>rx_test r s\<close> is \<^verbatim>\<open>/^r$/.test(s)\<close>: without the
  \<^verbatim>\<open>m\<close> flag the anchors are the two ends of the input, so the test is whether the whole
  input is a word of \<open>r\<close>. It is computed with derivatives.
\<close>

datatype rx = RNone | REps | RClass "jschar \<Rightarrow> bool" | RAlt rx rx | RSeq rx rx | RStar rx

definition RPlus :: "rx \<Rightarrow> rx" where
  "RPlus r = RSeq r (RStar r)"

definition RChar :: "jschar \<Rightarrow> rx" where
  "RChar c = RClass (\<lambda>x. x = c)"

fun RLit :: "jsstring \<Rightarrow> rx" where
  "RLit [] = REps"
| "RLit (c # cs) = RSeq (RChar c) (RLit cs)"

fun nullable :: "rx \<Rightarrow> bool" where
  "nullable RNone = False"
| "nullable REps = True"
| "nullable (RClass p) = False"
| "nullable (RAlt r s) = (nullable r \<or> nullable s)"
| "nullable (RSeq r s) = (nullable r \<and> nullable s)"
| "nullable (RStar r) = True"

fun deriv :: "jschar \<Rightarrow> rx \<Rightarrow> rx" where
  "deriv c RNone = RNone"
| "deriv c REps = RNone"
| "deriv c (RClass p) = (if p c then REps else RNone)"
| "deriv c (RAlt r s) = RAlt (deriv c r) (deriv c s)"
| "deriv c (RSeq r s) =
     (if nullable r then RAlt (RSeq (deriv c r) s) (deriv c s) else RSeq (deriv c r) s)"
| "deriv c (RStar r) = RSeq (deriv c r) (RStar r)"

fun rx_test :: "rx \<Rightarrow> jsstring \<Rightarrow> bool" where
  "rx_test r [] = nullable r"
| "rx_test r (c # cs) = rx_test (deriv c r) cs"

text \<open>The words of a regular expression, to say what \<open>rx_test\<close> decides.\<close>

inductive_set star :: "jsstring set \<Rightarrow> jsstring set" for A :: "jsstring set" where
  star_nil: "[] \<in> star A"
| star_app: "u \<in> A \<Longrightarrow> v \<in> star A \<Longrightarrow> u @ v \<in> star A"

fun lang :: "rx \<Rightarrow> jsstring set" where
  "lang RNone = {}"
| "lang REps = {[]}"
| "lang (RClass p) = {[c] | c. p c}"
| "lang (RAlt r s) = lang r \<union> lang s"
| "lang (RSeq r s) = {u @ v | u v. u \<in> lang r \<and> v \<in> lang s}"
| "lang (RStar r) = star (lang r)"

section \<open>The two patterns of the worker\<close>

text \<open>\<^verbatim>\<open>filename.replace(/[^\w\s.-]/g, '_')\<close>: a one-class pattern with the \<^verbatim>\<open>g\<close> flag
  replaces every code unit of the class, one by one.\<close>

definition replace_class :: "(jschar \<Rightarrow> bool) \<Rightarrow> jschar \<Rightarrow> jsstring \<Rightarrow> jsstring" where
  "replace_class p r s = map (\<lambda>c. if p c then r else c) s"

definition sanitize :: "jsstring \<Rightarrow> jsstring" where
  "sanitize filename =
     replace_class (\<lambda>c. \<not> (is_word c \<or> is_space c \<or> c = full_stop \<or> c = hyphen)) underscore filename"

text \<open>\<^verbatim>\<open>/^uploads\/\d+-[\w-]+-.*$/\<close>, the pattern of \<^verbatim>\<open>handleConfirmUpload\<close>.\<close>

definition key_rx :: rx where
  "key_rx =
     RSeq (RLit (js ''uploads/''))
       (RSeq (RPlus (RClass is_digit))
         (RSeq (RChar hyphen)
           (RSeq (RPlus (RClass (\<lambda>c. is_word c \<or> c = hyphen)))
             (RSeq (RChar hyphen)
               (RStar (RClass (\<lambda>c. \<not> is_line_terminator c)))))))"

text \<open>The pattern as the specification words it, \<^verbatim>\<open>^uploads/\d+-\S+-.*$\<close>, to compare with
  \<open>key_rx\<close>.\<close>

definition spec_key_rx :: rx where
  "spec_key_rx =
     RSeq (RLit (js ''uploads/''))
       (RSeq (RPlus (RClass is_digit))
         (RSeq (RChar hyphen)
           (RSeq (RPlus (RClass (\<lambda>c. \<not> is_space c)))
             (RSeq (RChar hyphen)
               (RStar (RClass (\<lambda>c. \<not> is_line_terminator c)))))))"

section \<open>Values read from the runtime\<close>

text \<open>
  \<^verbatim>\<open>Date.now()\<close> is a count of milliseconds, a non-negative integer below \<open>10\<^sup>2\<^sup>1\<close>, which a
  template literal renders in plain decimal digits.
\<close>

definition digit_char :: "nat \<Rightarrow> jschar" where
  "digit_char d = of_nat (48 + d)"

fun decimal :: "nat \<Rightarrow> jsstring" where
  "decimal n = (if n < 10 then [digit_char n] else decimal (n div 10) @ [digit_char (n mod 10)])"

declare decimal.simps [simp del]

text \<open>\<^verbatim>\<open>crypto.randomUUID()\<close> returns 36 code units: lower-case hexadecimal digits in groups of
  8, 4, 4, 4 and 12, joined by hyphens.\<close>

definition is_hex :: "jschar \<Rightarrow> bool" where
  "is_hex c = (in_range 0x30 0x39 c \<or> in_range 0x61 0x66 c)"

fun hex_groups :: "nat list \<Rightarrow> jsstring \<Rightarrow> bool" where
  "hex_groups [] s = False"
| "hex_groups [n] s = (length s = n \<and> list_all is_hex s)"
| "hex_groups (n # m # ns) s =
     (length (take n s) = n \<and> list_all is_hex (take n s) \<and>
      (case drop n s of [] \<Rightarrow> False | c # rest \<Rightarrow> c = hyphen \<and> hex_groups (m # ns) rest))"

definition is_uuid :: "jsstring \<Rightarrow> bool" where
  "is_uuid u = hex_groups [8, 4, 4, 4, 12] u"

section \<open>Parsed JSON\<close>

text \<open>
  What \<^verbatim>\<open>request.json()\<close> gives. A number is kept as the string \<^verbatim>\<open>Number::toString\<close> renders
  it to, which is all the worker can observe of it: zero (of either sign) is the one
  number rendered \<^verbatim>\<open>0\<close>, and the one that is falsy. An object is the list of its own
  properties.
\<close>

datatype json =
    JNull
  | JBool bool
  | JNum jsstring
  | JStr jsstring
  | JArr "json list"
  | JObj "(jsstring \<times> json) list"

datatype body = Unparseable jsstring | Parsed json

text \<open>Reading a property that no built-in prototype defines (\<^verbatim>\<open>filename\<close>, \<^verbatim>\<open>filetype\<close>,
  \<^verbatim>\<open>key\<close>) from a value that is not \<^verbatim>\<open>null\<close>; \<open>None\<close> is \<^verbatim>\<open>undefined\<close>.\<close>

fun property :: "json \<Rightarrow> jsstring \<Rightarrow> json option" where
  "property (JObj ps) k = map_of ps k"
| "property _ k = None"

fun truthy :: "json \<Rightarrow> bool" where
  "truthy JNull = False"
| "truthy (JBool b) = b"
| "truthy (JNum s) = (s \<noteq> js ''0'')"
| "truthy (JStr s) = (s \<noteq> [])"
| "truthy (JArr xs) = True"
| "truthy (JObj ps) = True"

datatype type_error = DestructureNull | NotAFunction | NoPrimitive

datatype exn = Error jsstring | SyntaxError jsstring | TypeError type_error

text \<open>\<^verbatim>\<open>error.message\<close>. The text of a TypeError the engine raises is the engine's own; it is
  a parameter.\<close>

fun message :: "(type_error \<Rightarrow> jsstring) \<Rightarrow> exn \<Rightarrow> jsstring" where
  "message tmsg (Error m) = m"
| "message tmsg (SyntaxError m) = m"
| "message tmsg (TypeError t) = tmsg t"

text \<open>
  ToString, as \<^verbatim>\<open>RegExp.prototype.test\<close> and a template literal apply it. An array joins its
  elements with commas, \<^verbatim>\<open>null\<close> elements as the empty string. A parsed object has no callable
  property of its own: with an own \<^verbatim>\<open>toString\<close> the conversion finds no primitive and throws,
  otherwise \<^verbatim>\<open>Object.prototype.toString\<close> answers.
\<close>

fun to_string :: "json \<Rightarrow> type_error + jsstring"
  and join_elements :: "json list \<Rightarrow> type_error + jsstring" where
  "to_string JNull = Inr (js ''null'')"
| "to_string (JBool b) = Inr (if b then js ''true'' else js ''false'')"
| "to_string (JNum s) = Inr s"
| "to_string (JStr s) = Inr s"
| "to_string (JArr xs) = join_elements xs"
| "to_string (JObj ps) =
     (if map_of ps (js ''toString'') = None then Inr (js ''[object Object]'') else Inl NoPrimitive)"
| "join_elements [] = Inr []"
| "join_elements (x # xs) =
     (case (if x = JNull then Inr [] else to_string x) of
        Inl e \<Rightarrow> Inl e
      | Inr s \<Rightarrow>
          (if xs = [] then Inr s
           else (case join_elements xs of Inl e \<Rightarrow> Inl e | Inr t \<Rightarrow> Inr (s @ comma # t))))"

text \<open>A value of the environment inside a template literal.\<close>

fun template :: "jsstring option \<Rightarrow> jsstring" where
  "template None = js ''undefined''"
| "template (Some s) = s"

section \<open>Environment, requests, responses\<close>

record env =
  AWS_ACCESS_KEY_ID :: "jsstring option"
  AWS_SECRET_ACCESS_KEY :: "jsstring option"
  AWS_REGION :: "jsstring option"
  AWS_S3_BUCKET :: "jsstring option"
  ALLOWED_ORIGIN :: "jsstring option"

text \<open>\<^verbatim>\<open>env.X\<close> in a condition: set and not empty.\<close>

fun present :: "jsstring option \<Rightarrow> bool" where
  "present None = False"
| "present (Some s) = (s \<noteq> [])"

record request =
  request_method :: jsstring
  pathname :: jsstring
  json_body :: body

text \<open>A response body is nothing, a text, or the object handed to \<^verbatim>\<open>JSON.stringify\<close>, which
  leaves out the properties whose value is \<^verbatim>\<open>undefined\<close>. A \<open>response\<close> is used twice: for
  what the worker hands to \<^verbatim>\<open>new Response\<close> (the results of \<open>corsResponse\<close>, of the handlers
  and of \<open>fetch\<close>), and for the response the constructor makes of it (\<open>new_Response\<close>,
  \<open>respond\<close>).\<close>

datatype payload = NoBody | Text jsstring | Json "(jsstring \<times> json) list"

record response =
  status :: nat
  headers :: "(jsstring \<times> jsstring) list"
  payload :: payload

fun defined_fields :: "(jsstring \<times> json option) list \<Rightarrow> (jsstring \<times> json) list" where
  "defined_fields [] = []"
| "defined_fields ((k, None) # fs) = defined_fields fs"
| "defined_fields ((k, Some v) # fs) = (k, v) # defined_fields fs"

record s3client =
  region :: jsstring
  accessKeyId :: jsstring
  secretAccessKey :: jsstring

record put_object_command =
  Bucket :: "jsstring option"
  Key :: jsstring
  ContentType :: json

text \<open>
  What a request draws from outside: the clock, the random UUID, and the signing call
  \<^verbatim>\<open>getSignedUrl(client, command, {expiresIn})\<close>, which returns a URL (\<open>Inr\<close>) or throws an
  error with a message (\<open>Inl\<close>).
\<close>

record runtime =
  Date_now :: nat
  randomUUID :: jsstring
  getSignedUrl :: "s3client \<Rightarrow> put_object_command \<Rightarrow> nat \<Rightarrow> jsstring + jsstring"

text \<open>The state that outlives a request: the module variable \<^verbatim>\<open>s3Client\<close>, and the commands
  handed to \<^verbatim>\<open>getSignedUrl\<close> so far.\<close>

record world =
  s3Client :: "s3client option"
  presigned :: "put_object_command list"

definition module_init :: world where
  "module_init = \<lparr>s3Client = None, presigned = []\<rparr>"

section \<open>The worker\<close>

definition or_default :: "jsstring option \<Rightarrow> jsstring \<Rightarrow> jsstring" where
  "or_default v d = (if present v then template v else d)"

definition corsResponse :: "payload \<Rightarrow> env \<Rightarrow> nat \<Rightarrow> response" where
  "corsResponse b e st =
     \<lparr>status = st,
      headers =
        [(js ''Content-Type'', js ''application/json''),
         (js ''Access-Control-Allow-Origin'', or_default (ALLOWED_ORIGIN e) (js ''*'')),
         (js ''Cache-Control'', if st = 200 then js ''private, no-cache'' else js ''no-store'')],
      payload = b\<rparr>"

definition handleCORS :: "request \<Rightarrow> env \<Rightarrow> response" where
  "handleCORS rq e =
     \<lparr>status = 200,
      headers =
        [(js ''Access-Control-Allow-Origin'', or_default (ALLOWED_ORIGIN e) (js ''*'')),
         (js ''Access-Control-Allow-Methods'', js ''GET, POST, OPTIONS''),
         (js ''Access-Control-Allow-Headers'', js ''Content-Type, Authorization''),
         (js ''Access-Control-Max-Age'', js ''86400''),
         (js ''Cache-Control'', js ''public, max-age=86400'')],
      payload = NoBody\<rparr>"

definition upload_failed :: "(type_error \<Rightarrow> jsstring) \<Rightarrow> env \<Rightarrow> exn \<Rightarrow> response" where
  "upload_failed tmsg e x =
     corsResponse (Json [(js ''error'', JStr (js ''Failed to generate upload URL'')),
                         (js ''details'', JStr (message tmsg x))]) e 500"

definition upload_key :: "nat \<Rightarrow> jsstring \<Rightarrow> jsstring \<Rightarrow> jsstring" where
  "upload_key now uuid sanitizedFilename =
     js ''uploads/'' @ decimal now @ hyphen # uuid @ hyphen # sanitizedFilename"

text \<open>
  The two handlers. The \<^verbatim>\<open>try\<close> block is the case analysis, in the order of the source; every
  \<^verbatim>\<open>throw\<close>, of the worker or of the engine, ends in the \<^verbatim>\<open>catch\<close> branch, which is
  \<open>upload_failed\<close> for \<^verbatim>\<open>handleUploadUrl\<close> and \<open>confirm_failed\<close> for \<^verbatim>\<open>handleConfirmUpload\<close>.
  A filename that is no string has no \<^verbatim>\<open>replace\<close> to call.
\<close>

definition handleUploadUrl ::
  "(type_error \<Rightarrow> jsstring) \<Rightarrow> runtime \<Rightarrow> world \<Rightarrow> request \<Rightarrow> env \<Rightarrow> response \<times> world" where
  "handleUploadUrl tmsg rt w rq e =
     (case s3Client w of
        None \<Rightarrow>
          (upload_failed tmsg e
             (Error (js ''S3 client could not be initialized. Check AWS credentials.'')), w)
      | Some client \<Rightarrow>
          (case json_body rq of
             Unparseable m \<Rightarrow> (upload_failed tmsg e (SyntaxError m), w)
           | Parsed JNull \<Rightarrow> (upload_failed tmsg e (TypeError DestructureNull), w)
           | Parsed b \<Rightarrow>
               (case (property b (js ''filename''), property b (js ''filetype'')) of
                  (Some filename, Some filetype) \<Rightarrow>
                    (if \<not> truthy filename \<or> \<not> truthy filetype then
                       (corsResponse
                          (Json [(js ''error'',
                                  JStr (js ''Missing required parameters: filename and filetype''))])
                          e 400, w)
                     else
                       (case filename of
                          JStr f \<Rightarrow>
                            (let sanitizedFilename = sanitize f;
                                 key = upload_key (Date_now rt) (randomUUID rt) sanitizedFilename;
                                 command = \<lparr>Bucket = AWS_S3_BUCKET e, Key = key,
                                            ContentType = filetype\<rparr>;
                                 w' = w\<lparr>presigned := presigned w @ [command]\<rparr>
                             in (case getSignedUrl rt client command 3600 of
                                   Inl m \<Rightarrow> (upload_failed tmsg e (Error m), w')
                                 | Inr presignedUrl \<Rightarrow>
                                     (corsResponse
                                        (Json (defined_fields
                                           [(js ''url'', Some (JStr presignedUrl)),
                                            (js ''key'', Some (JStr key)),
                                            (js ''bucket'', map_option JStr (AWS_S3_BUCKET e))]))
                                        e 200, w')))
                        | _ \<Rightarrow> (upload_failed tmsg e (TypeError NotAFunction), w)))
                | _ \<Rightarrow>
                    (corsResponse
                       (Json [(js ''error'',
                               JStr (js ''Missing required parameters: filename and filetype''))])
                       e 400, w))))"

definition confirm_failed :: "(type_error \<Rightarrow> jsstring) \<Rightarrow> env \<Rightarrow> exn \<Rightarrow> response" where
  "confirm_failed tmsg e x =
     corsResponse (Json [(js ''error'', JStr (js ''Failed to confirm upload'')),
                         (js ''details'', JStr (message tmsg x))]) e 500"

definition handleConfirmUpload ::
  "(type_error \<Rightarrow> jsstring) \<Rightarrow> request \<Rightarrow> env \<Rightarrow> response" where
  "handleConfirmUpload tmsg rq e =
     (case json_body rq of
        Unparseable m \<Rightarrow> confirm_failed tmsg e (SyntaxError m)
      | Parsed JNull \<Rightarrow> confirm_failed tmsg e (TypeError DestructureNull)
      | Parsed b \<Rightarrow>
          (case property b (js ''key'') of
             None \<Rightarrow>
               corsResponse (Json [(js ''error'', JStr (js ''Missing required parameter: key''))])
                 e 400
           | Some key \<Rightarrow>
               (if \<not> truthy key then
                  corsResponse
                    (Json [(js ''error'', JStr (js ''Missing required parameter: key''))]) e 400
                else
                  (case to_string key of
                     Inl t \<Rightarrow> confirm_failed tmsg e (TypeError t)
                   | Inr k \<Rightarrow>
                       (if \<not> rx_test key_rx k then
                          corsResponse (Json [(js ''error'', JStr (js ''Invalid key format''))])
                            e 400
                        else
                          corsResponse
                            (Json [(js ''success'', JBool True),
                                   (js ''message'', JStr (js ''Upload confirmed!'')),
                                   (js ''imageUrl'',
                                    JStr (js ''https://'' @ template (AWS_S3_BUCKET e) @
                                          js ''.s3.amazonaws.com/'' @ k))])
                            e 200)))))"

text \<open>The client is built once, on the first request that finds the three settings.\<close>

definition init_client :: "world \<Rightarrow> env \<Rightarrow> world" where
  "init_client w e =
     (case (s3Client w, AWS_ACCESS_KEY_ID e, AWS_SECRET_ACCESS_KEY e, AWS_REGION e) of
        (None, Some k, Some s, Some r) \<Rightarrow>
          (if k \<noteq> [] \<and> s \<noteq> [] \<and> r \<noteq> [] then
             w\<lparr>s3Client := Some \<lparr>region = r, accessKeyId = k, secretAccessKey = s\<rparr>\<rparr>
           else w)
      | _ \<Rightarrow> w)"

definition fetch ::
  "(type_error \<Rightarrow> jsstring) \<Rightarrow> runtime \<Rightarrow> world \<Rightarrow> request \<Rightarrow> env \<Rightarrow> response \<times> world" where
  "fetch tmsg rt w rq e =
     (if request_method rq = js ''OPTIONS'' then (handleCORS rq e, w)
      else
        (let w' = init_client w e in
         if pathname rq = js ''/get-upload-url'' \<and> request_method rq = js ''POST'' then
           handleUploadUrl tmsg rt w' rq e
         else if pathname rq = js ''/confirm-upload'' \<and> request_method rq = js ''POST'' then
           (handleConfirmUpload tmsg rq e, w')
         else (\<lparr>status = 404, headers = [], payload = Text (js ''Not found'')\<rparr>, w')))"

text \<open>The worker serving one request after another, each with its own draws, under one
  environment.\<close>

fun serve ::
  "(type_error \<Rightarrow> jsstring) \<Rightarrow> env \<Rightarrow> world \<Rightarrow> (runtime \<times> request) list \<Rightarrow> (response \<times> world) list"
  where
  "serve tmsg e w [] = []"
| "serve tmsg e w ((rt, rq) # rest) =
     (let (resp, w') = fetch tmsg rt w rq e in (resp, w') # serve tmsg e w' rest)"

section \<open>The Response constructor\<close>

text \<open>
  \<^verbatim>\<open>corsResponse\<close>, \<^verbatim>\<open>handleCORS\<close> and the 404 branch build their answer with
  \<^verbatim>\<open>new Response(body, {status, headers})\<close>; the records above are what they hand to it. The
  constructor, after the Fetch standard: header names and values are byte strings; the
  status lies between 200 and 599; each value loses its leading and trailing HTTP white
  space (tab, line feed, carriage return, space) and must then hold no NUL, line feed or
  carriage return; a body is refused on a null-body status; and a string body brings the
  \<^verbatim>\<open>Content-Type\<close> of a text when none is given. Otherwise the constructor throws.
\<close>

datatype construct_error = ResponseTypeError | ResponseRangeError

definition http_whitespace :: "jschar \<Rightarrow> bool" where
  "http_whitespace c = (c = 0x09 \<or> c = 0x0A \<or> c = 0x0D \<or> c = 0x20)"

definition normalize_value :: "jsstring \<Rightarrow> jsstring" where
  "normalize_value v = rev (dropWhile http_whitespace (rev (dropWhile http_whitespace v)))"

definition byte_string :: "jsstring \<Rightarrow> bool" where
  "byte_string v = list_all (\<lambda>c. unat c \<le> 0xFF) v"

definition header_value :: "jsstring \<Rightarrow> bool" where
  "header_value v = list_all (\<lambda>c. c \<noteq> 0x00 \<and> c \<noteq> 0x0A \<and> c \<noteq> 0x0D) v"

definition token_char :: "jschar \<Rightarrow> bool" where
  "token_char c = (in_range 0x30 0x39 c \<or> in_range 0x41 0x5A c \<or> in_range 0x61 0x7A c \<or>
     c \<in> set [0x21, 0x23, 0x24, 0x25, 0x26, 0x27, 0x2A, 0x2B, 0x2D, 0x2E, 0x5E, 0x5F, 0x60,
                0x7C, 0x7E])"

definition header_name :: "jsstring \<Rightarrow> bool" where
  "header_name n = (n \<noteq> [] \<and> list_all token_char n)"

definition ascii_lower :: "jschar \<Rightarrow> jschar" where
  "ascii_lower c = (if in_range 0x41 0x5A c then c + 0x20 else c)"

definition has_header :: "(jsstring \<times> jsstring) list \<Rightarrow> jsstring \<Rightarrow> bool" where
  "has_header hs n = (map ascii_lower n \<in> set (map (\<lambda>(k, v). map ascii_lower k) hs))"

definition null_body_status :: "nat \<Rightarrow> bool" where
  "null_body_status st = (st = 101 \<or> st = 103 \<or> st = 204 \<or> st = 205 \<or> st = 304)"

definition new_Response :: "response \<Rightarrow> construct_error + response" where
  "new_Response init =
     (if \<not> list_all (\<lambda>(k, v). byte_string k \<and> byte_string v) (headers init) then
        Inl ResponseTypeError
      else if status init < 200 \<or> 599 < status init then Inl ResponseRangeError
      else if \<not> list_all (\<lambda>(k, v). header_name k \<and> header_value (normalize_value v))
                (headers init) then
        Inl ResponseTypeError
      else if payload init \<noteq> NoBody \<and> null_body_status (status init) then
        Inl ResponseTypeError
      else
        Inr (init\<lparr>headers :=
               map (\<lambda>(k, v). (k, normalize_value v)) (headers init) @
               (if payload init \<noteq> NoBody \<and> \<not> has_header (headers init) (js ''Content-Type'')
                then [(js ''Content-Type'', js ''text/plain;charset=UTF-8'')] else [])\<rparr>))"

text \<open>
  What the worker answers. A throw of the constructor inside \<^verbatim>\<open>try\<close> reaches \<^verbatim>\<open>catch\<close>, whose
  own \<^verbatim>\<open>corsResponse\<close> hands the same \<^verbatim>\<open>ALLOWED_ORIGIN\<close> to the constructor and throws again
  (\<open>catch_cannot_answer\<close> below): the request then gets no response from the worker,
  which is \<open>Inl\<close>.
\<close>

definition respond ::
  "(type_error \<Rightarrow> jsstring) \<Rightarrow> runtime \<Rightarrow> world \<Rightarrow> request \<Rightarrow> env \<Rightarrow>
     (construct_error + response) \<times> world" where
  "respond tmsg rt w rq e =
     (let (init, w') = fetch tmsg rt w rq e in (new_Response init, w'))"

section \<open>Notions used in the statements\<close>

text \<open>The configured allowed origin, any origin by default; and a value that begins or ends
  with HTTP white space.\<close>

definition configured_origin :: "env \<Rightarrow> jsstring" where
  "configured_origin e =
     (case ALLOWED_ORIGIN e of
        None \<Rightarrow> js ''*''
      | Some origin \<Rightarrow> if origin = [] then js ''*'' else origin)"


text \<open>The \<^verbatim>\<open>key\<close> a response carries, if it carries one.\<close>

definition response_key :: "response \<Rightarrow> jsstring option" where
  "response_key r =
     (case payload r of
        Json fs \<Rightarrow> (case map_of fs (js ''key'') of Some (JStr k) \<Rightarrow> Some k | _ \<Rightarrow> None)
      | _ \<Rightarrow> None)"

text \<open>\<^verbatim>\<open>!v\<close> for a property that may be \<^verbatim>\<open>undefined\<close>.\<close>

fun falsy :: "json option \<Rightarrow> bool" where
  "falsy None = True"
| "falsy (Some v) = (\<not> truthy v)"



section \<open>Sample values\<close>

definition sample_tmsg :: "type_error \<Rightarrow> jsstring" where
  "sample_tmsg t = js ''TypeError''"

definition sample_env :: env where
  "sample_env =
     \<lparr>AWS_ACCESS_KEY_ID = Some (js ''AKIAEXAMPLE''), AWS_SECRET_ACCESS_KEY = Some (js ''secret''),
      AWS_REGION = Some (js ''us-east-1''), AWS_S3_BUCKET = Some (js ''my-bucket''),
      ALLOWED_ORIGIN = None\<rparr>"

definition bare_env :: env where
  "bare_env =
     \<lparr>AWS_ACCESS_KEY_ID = None, AWS_SECRET_ACCESS_KEY = None, AWS_REGION = None,
      AWS_S3_BUCKET = Some (js ''my-bucket''), ALLOWED_ORIGIN = None\<rparr>"

definition sample_world :: world where
  "sample_world =
     \<lparr>s3Client = Some \<lparr>region = js ''us-east-1'', accessKeyId = js ''AKIAEXAMPLE'',
                        secretAccessKey = js ''secret''\<rparr>,
      presigned = []\<rparr>"

definition sample_uuid :: jsstring where
  "sample_uuid = js ''123e4567-e89b-42d3-a456-426614174000''"

definition other_uuid :: jsstring where
  "other_uuid = js ''00000000-0000-4000-8000-000000000000''"

definition sample_runtime :: runtime where
  "sample_runtime =
     \<lparr>Date_now = 1700000000000, randomUUID = sample_uuid,
      getSignedUrl = (\<lambda>client command expiresIn. Inr (js ''https://signed.example/''))\<rparr>"

definition other_runtime :: runtime where
  "other_runtime = sample_runtime\<lparr>randomUUID := other_uuid\<rparr>"

definition upload_request :: "body \<Rightarrow> request" where
  "upload_request b = \<lparr>request_method = js ''POST'', pathname = js ''/get-upload-url'', json_body = b\<rparr>"

definition confirm_request :: "body \<Rightarrow> request" where
  "confirm_request b = \<lparr>request_method = js ''POST'', pathname = js ''/confirm-upload'', json_body = b\<rparr>"

definition key_body :: "json \<Rightarrow> body" where
  "key_body k = Parsed (JObj [(js ''key'', k)])"

definition file_body :: "json \<Rightarrow> json \<Rightarrow> body" where
  "file_body filename filetype =
     Parsed (JObj [(js ''filename'', filename), (js ''filetype'', filetype)])"

definition sample_upload :: request where
  "sample_upload = upload_request (file_body (JStr (js ''my photo.png'')) (JStr (js ''image/png'')))"

definition region_missing_env :: env where
  "region_missing_env = sample_env\<lparr>AWS_REGION := None\<rparr>"


definition line_feed_origin_env :: env where
  "line_feed_origin_env =
     sample_env\<lparr>ALLOWED_ORIGIN := Some (js ''https://app.example'' @ 0x0A # js ''x'')\<rparr>"

section \<open>What the derivative test decides\<close>

lemma nullable_lang: "nullable r \<longleftrightarrow> [] \<in> lang r"
  by (induction r) (auto intro: star.star_nil)

lemma star_cons_split:
  assumes "x \<in> star A" and "x = c # w"
  shows "\<exists>u v. w = u @ v \<and> c # u \<in> A \<and> v \<in> star A"
  using assms
proof (induction arbitrary: w rule: star.induct)
  case star_nil
  then show ?case by simp
next
  case (star_app u v)
  show ?case
  proof (cases u)
    case Nil
    with star_app show ?thesis by simp
  next
    case (Cons a u')
    with star_app.prems have "a = c" and "w = u' @ v" by simp_all
    with Cons star_app.hyps show ?thesis by blast
  qed
qed

lemma star_cons_iff:
  "c # w \<in> star A \<longleftrightarrow> (\<exists>u v. w = u @ v \<and> c # u \<in> A \<and> v \<in> star A)"
proof
  assume "c # w \<in> star A"
  then show "\<exists>u v. w = u @ v \<and> c # u \<in> A \<and> v \<in> star A"
    by (rule star_cons_split) simp
next
  assume "\<exists>u v. w = u @ v \<and> c # u \<in> A \<and> v \<in> star A"
  then obtain u v where "w = u @ v" "c # u \<in> A" "v \<in> star A" by blast
  then show "c # w \<in> star A"
    using star.star_app [of "c # u" A v] by simp
qed

lemma lang_deriv: "w \<in> lang (deriv c r) \<longleftrightarrow> c # w \<in> lang r"
proof (induction r arbitrary: w)
  case (RSeq r s)
  show ?case
  proof
    assume "w \<in> lang (deriv c (RSeq r s))"
    then consider (left) u v where "w = u @ v" "u \<in> lang (deriv c r)" "v \<in> lang s"
      | (right) "nullable r" "w \<in> lang (deriv c s)"
      by (auto split: if_splits)
    then show "c # w \<in> lang (RSeq r s)"
    proof cases
      case left
      then have "c # w = (c # u) @ v" "c # u \<in> lang r" using RSeq.IH(1) by simp_all
      with left(3) show ?thesis by (simp del: append_Cons) blast
    next
      case right
      then have "[] \<in> lang r" "c # w \<in> lang s" using RSeq.IH(2) nullable_lang by simp_all
      then show ?thesis by simp (metis append_Nil)
    qed
  next
    assume "c # w \<in> lang (RSeq r s)"
    then obtain u v where uv: "c # w = u @ v" "u \<in> lang r" "v \<in> lang s" by auto
    show "w \<in> lang (deriv c (RSeq r s))"
    proof (cases u)
      case Nil
      with uv have "nullable r" "w \<in> lang (deriv c s)"
        using RSeq.IH(2) nullable_lang by simp_all
      then show ?thesis by simp
    next
      case (Cons a u')
      with uv have "u' \<in> lang (deriv c r)" "w = u' @ v" using RSeq.IH(1) by simp_all
      with uv(3) show ?thesis by auto
    qed
  qed
next
  case (RStar r)
  then show ?case by (auto simp: star_cons_iff)
qed auto

lemma rx_test_lang: "rx_test r s \<longleftrightarrow> s \<in> lang r"
  by (induction s arbitrary: r) (simp_all add: nullable_lang lang_deriv)

lemma star_class: "w \<in> star {[c] | c. p c} \<longleftrightarrow> list_all p w"
proof
  assume "w \<in> star {[c] | c. p c}"
  then show "list_all p w" by (induction rule: star.induct) auto
next
  assume "list_all p w"
  then show "w \<in> star {[c] | c. p c}"
  proof (induction w)
    case Nil
    show ?case by (rule star.star_nil)
  next
    case (Cons a w)
    then have "[a] \<in> {[c] | c. p c}" "w \<in> star {[c] | c. p c}" by simp_all
    then have "[a] @ w \<in> star {[c] | c. p c}" by (rule star.star_app)
    then show ?case by simp
  qed
qed

lemma lang_RLit: "w \<in> lang (RLit s) \<longleftrightarrow> w = s"
  by (induction s arbitrary: w) (auto simp: RChar_def)

lemma lang_RChar: "w \<in> lang (RChar c) \<longleftrightarrow> w = [c]"
  by (auto simp: RChar_def)

lemma lang_star_class: "w \<in> lang (RStar (RClass p)) \<longleftrightarrow> list_all p w"
  by (simp add: star_class)

lemma lang_plus_class: "w \<in> lang (RPlus (RClass p)) \<longleftrightarrow> w \<noteq> [] \<and> list_all p w"
proof
  assume "w \<in> lang (RPlus (RClass p))"
  then show "w \<noteq> [] \<and> list_all p w"
    by (auto simp: RPlus_def star_class)
next
  assume *: "w \<noteq> [] \<and> list_all p w"
  then obtain c v where "w = [c] @ v" "p c" "list_all p v"
    by (cases w) auto
  then show "w \<in> lang (RPlus (RClass p))"
    unfolding RPlus_def lang.simps star_class by blast
qed

lemma lang_seq: "k \<in> lang (RSeq r s) \<longleftrightarrow> (\<exists>u v. k = u @ v \<and> u \<in> lang r \<and> v \<in> lang s)"
  by auto

lemma key_pattern_lang:
  "k \<in> lang (RSeq (RLit p) (RSeq (RPlus (RClass dg)) (RSeq (RChar h)
      (RSeq (RPlus (RClass ident)) (RSeq (RChar h) (RStar (RClass rs))))))) \<longleftrightarrow>
   (\<exists>d w rest. k = p @ d @ h # w @ h # rest \<and> d \<noteq> [] \<and> list_all dg d \<and>
      w \<noteq> [] \<and> list_all ident w \<and> list_all rs rest)"
  (is "?L \<longleftrightarrow> ?R")
proof
  assume ?L
  then show ?R
    unfolding lang_seq lang_RLit lang_RChar lang_plus_class lang_star_class
    by (auto simp del: lang.simps)
next
  assume ?R
  then obtain d w rest where k: "k = p @ d @ h # w @ h # rest"
    and d: "d \<noteq> [] \<and> list_all dg d" and w: "w \<noteq> [] \<and> list_all ident w"
    and r: "list_all rs rest"
    by blast
  have "h # rest \<in> lang (RSeq (RChar h) (RStar (RClass rs)))"
    unfolding lang_seq lang_RChar lang_star_class using r by simp
  with w have "w @ h # rest \<in> lang (RSeq (RPlus (RClass ident)) (RSeq (RChar h) (RStar (RClass rs))))"
    unfolding lang_seq [of _ "RPlus (RClass ident)"] lang_plus_class by blast
  then have "[h] @ w @ h # rest \<in> lang (RSeq (RChar h) (RSeq (RPlus (RClass ident))
      (RSeq (RChar h) (RStar (RClass rs)))))"
    unfolding lang_seq [of _ "RChar h"] lang_RChar by blast
  with d have "d @ [h] @ w @ h # rest \<in> lang (RSeq (RPlus (RClass dg)) (RSeq (RChar h)
      (RSeq (RPlus (RClass ident)) (RSeq (RChar h) (RStar (RClass rs))))))"
    unfolding lang_seq [of _ "RPlus (RClass dg)"] lang_plus_class by blast
  then have "p @ d @ [h] @ w @ h # rest \<in> lang (RSeq (RLit p) (RSeq (RPlus (RClass dg))
      (RSeq (RChar h) (RSeq (RPlus (RClass ident)) (RSeq (RChar h) (RStar (RClass rs)))))))"
    unfolding lang_seq [of _ "RLit p"] lang_RLit by blast
  with k show ?L by simp
qed


section \<open>The confirmation pattern\<close>

lemmas pattern_defs = js_def in_range_def is_digit_def is_word_def is_line_terminator_def is_space_def
  RPlus_def RChar_def

lemma word_not_space: "is_word c \<or> c = hyphen \<Longrightarrow> \<not> is_space c"
  by (auto simp: is_word_def is_space_def is_digit_def in_range_def is_line_terminator_def)

lemma key_rx_words:
  "rx_test key_rx k \<longleftrightarrow>
   (\<exists>d w rest. k = js ''uploads/'' @ d @ hyphen # w @ hyphen # rest \<and>
      d \<noteq> [] \<and> list_all is_digit d \<and>
      w \<noteq> [] \<and> list_all (\<lambda>c. is_word c \<or> c = hyphen) w \<and>
      list_all (\<lambda>c. \<not> is_line_terminator c) rest)"
  unfolding rx_test_lang key_rx_def by (rule key_pattern_lang)

lemma spec_key_rx_words:
  "rx_test spec_key_rx k \<longleftrightarrow>
   (\<exists>d w rest. k = js ''uploads/'' @ d @ hyphen # w @ hyphen # rest \<and>
      d \<noteq> [] \<and> list_all is_digit d \<and>
      w \<noteq> [] \<and> list_all (\<lambda>c. \<not> is_space c) w \<and>
      list_all (\<lambda>c. \<not> is_line_terminator c) rest)"
  unfolding rx_test_lang spec_key_rx_def by (rule key_pattern_lang)

lemma key_rx_within_spec: "rx_test key_rx k \<Longrightarrow> rx_test spec_key_rx k"
proof -
  assume "rx_test key_rx k"
  then obtain d w rest where *: "k = js ''uploads/'' @ d @ hyphen # w @ hyphen # rest"
      "d \<noteq> []" "list_all is_digit d" "w \<noteq> []" "list_all (\<lambda>c. is_word c \<or> c = hyphen) w"
      "list_all (\<lambda>c. \<not> is_line_terminator c) rest"
    unfolding key_rx_words by blast
  from *(5) have "list_all (\<lambda>c. \<not> is_space c) w"
    using word_not_space by (auto simp: list_all_iff)
  with * show ?thesis unfolding spec_key_rx_words by blast
qed

lemma confirm_string_key:
  assumes "json_body rq = Parsed b" and "property b (js ''key'') = Some (JStr k)" and "k \<noteq> []"
  shows "handleConfirmUpload tmsg rq e =
     (if rx_test key_rx k then
        corsResponse
          (Json [(js ''success'', JBool True),
                 (js ''message'', JStr (js ''Upload confirmed!'')),
                 (js ''imageUrl'',
                  JStr (js ''https://'' @ template (AWS_S3_BUCKET e) @ js ''.s3.amazonaws.com/'' @ k))])
          e 200
      else corsResponse (Json [(js ''error'', JStr (js ''Invalid key format''))]) e 400)"
  using assms by (cases b) (simp_all add: handleConfirmUpload_def)

text \<open>
  Claim C2, as the code has it. For a request whose \<^verbatim>\<open>key\<close> is a non-empty string,
  \<^verbatim>\<open>handleConfirmUpload\<close> answers 200 exactly when the key is \<^verbatim>\<open>uploads/\<close>, one or more
  digits, a hyphen, one or more characters of \<^verbatim>\<open>[A-Za-z0-9_-]\<close>, a hyphen, and a rest free of
  line terminators (\<^verbatim>\<open>^uploads\/\d+-[\w-]+-.*$\<close>); every other such key is answered 400 with
  \<^verbatim>\<open>Invalid key format\<close>, in particular every key outside the specification's pattern
  \<^verbatim>\<open>^uploads/\d+-\S+-.*$\<close>.
\<close>

theorem validator_accepts_iff:
  assumes "json_body rq = Parsed b" and "property b (js ''key'') = Some (JStr k)" and "k \<noteq> []"
  shows "(status (handleConfirmUpload tmsg rq e) = 200 \<longleftrightarrow>
            (\<exists>d w rest. k = js ''uploads/'' @ d @ hyphen # w @ hyphen # rest \<and>
               d \<noteq> [] \<and> list_all is_digit d \<and>
               w \<noteq> [] \<and> list_all (\<lambda>c. is_word c \<or> c = hyphen) w \<and>
               list_all (\<lambda>c. \<not> is_line_terminator c) rest))
         \<and> (status (handleConfirmUpload tmsg rq e) \<noteq> 200 \<longrightarrow>
              handleConfirmUpload tmsg rq e =
                corsResponse (Json [(js ''error'', JStr (js ''Invalid key format''))]) e 400)
         \<and> (\<not> rx_test spec_key_rx k \<longrightarrow>
              handleConfirmUpload tmsg rq e =
                corsResponse (Json [(js ''error'', JStr (js ''Invalid key format''))]) e 400)"
proof -
  note h = confirm_string_key [OF assms, of tmsg e]
  have "status (handleConfirmUpload tmsg rq e) = 200 \<longleftrightarrow> rx_test key_rx k"
    unfolding h by (simp add: corsResponse_def)
  moreover have "\<not> rx_test spec_key_rx k \<Longrightarrow> \<not> rx_test key_rx k"
    using key_rx_within_spec by blast
  ultimately show ?thesis
    unfolding key_rx_words [symmetric] using h by auto
qed

theorem validator_accepts_iff_witness:
  "status (handleConfirmUpload sample_tmsg
      (confirm_request (key_body (JStr (js ''uploads/1-a-b'')))) sample_env) = 200 \<and>
   (\<exists>d w rest. js ''uploads/1-a-b'' = js ''uploads/'' @ d @ hyphen # w @ hyphen # rest \<and>
      d \<noteq> [] \<and> list_all is_digit d \<and>
      w \<noteq> [] \<and> list_all (\<lambda>c. is_word c \<or> c = hyphen) w \<and>
      list_all (\<lambda>c. \<not> is_line_terminator c) rest) \<and>
   \<not> rx_test spec_key_rx (js ''photo.png'') \<and>
   handleConfirmUpload sample_tmsg (confirm_request (key_body (JStr (js ''photo.png''))))
      sample_env =
     corsResponse (Json [(js ''error'', JStr (js ''Invalid key format''))]) sample_env 400"
proof -
  have s: "status (handleConfirmUpload sample_tmsg
      (confirm_request (key_body (JStr (js ''uploads/1-a-b'')))) sample_env) = 200"
    by (simp add: handleConfirmUpload_def confirm_request_def key_body_def corsResponse_def
        key_rx_def pattern_defs)
  have b: "json_body (confirm_request (key_body (JStr k))) = Parsed (JObj [(js ''key'', JStr k)])"
    for k by (simp add: confirm_request_def key_body_def)
  have p: "property (JObj [(js ''key'', JStr k)]) (js ''key'') = Some (JStr k)" for k
    by simp
  have n1: "js ''uploads/1-a-b'' \<noteq> []" and n2: "js ''photo.png'' \<noteq> []"
    by (simp_all add: js_def)
  have r: "\<not> rx_test spec_key_rx (js ''photo.png'')"
    by (simp add: spec_key_rx_def pattern_defs)
  from validator_accepts_iff [OF b p n1, of sample_tmsg sample_env]
    validator_accepts_iff [OF b p n2, of sample_tmsg sample_env] s r
  show ?thesis by blast
qed

text \<open>
  The identifier is \<^verbatim>\<open>[\w-]+\<close> in the code, not \<^verbatim>\<open>\S+\<close>: the key \<^verbatim>\<open>uploads/1-a.b-c\<close> is a
  word of the specification's pattern (its identifier \<^verbatim>\<open>a.b\<close> has no slash and no white
  space) and is answered 400.
\<close>

theorem validator_pattern_counterexample:
  "rx_test spec_key_rx (js ''uploads/1-a.b-c'') \<and>
   list_all (\<lambda>c. \<not> is_space c \<and> c \<noteq> 0x2F) (js ''a.b'') \<and>
   handleConfirmUpload sample_tmsg (confirm_request (key_body (JStr (js ''uploads/1-a.b-c'')))) sample_env =
     corsResponse (Json [(js ''error'', JStr (js ''Invalid key format''))]) sample_env 400"
  by (simp add: handleConfirmUpload_def confirm_request_def key_body_def spec_key_rx_def key_rx_def pattern_defs)

section \<open>Timestamps and UUIDs\<close>

lemma unat_digit_char: "d < 10 \<Longrightarrow> unat (digit_char d) = 48 + d"
  unfolding digit_char_def unat_of_nat by simp

lemma is_digit_digit_char: "d < 10 \<Longrightarrow> is_digit (digit_char d)"
  by (simp add: is_digit_def in_range_def unat_digit_char)

lemma digit_char_inject:
  assumes "a < 10" and "b < 10" and "digit_char a = digit_char b"
  shows "a = b"
proof -
  have "48 + a = unat (digit_char a)" using assms(1) by (simp only: unat_digit_char)
  also have "\<dots> = unat (digit_char b)" by (simp only: assms(3))
  also have "\<dots> = 48 + b" using assms(2) by (simp only: unat_digit_char)
  finally show ?thesis by simp
qed

lemma decimal_digits: "list_all is_digit (decimal n)"
proof (induction n rule: decimal.induct)
  case (1 n)
  show ?case
  proof (cases "n < 10")
    case True
    then show ?thesis by (simp add: decimal.simps [of n] is_digit_digit_char)
  next
    case False
    with 1 show ?thesis by (simp add: decimal.simps [of n] is_digit_digit_char)
  qed
qed

lemma decimal_not_empty: "decimal n \<noteq> []"
  by (simp add: decimal.simps [of n])

lemma decimal_length: "10 \<le> n \<Longrightarrow> 2 \<le> length (decimal n)"
  using decimal_not_empty [of "n div 10"]
  by (cases "decimal (n div 10)") (simp_all add: decimal.simps [of n])

lemma decimal_inject: "decimal a = decimal b \<Longrightarrow> a = b"
proof (induction a arbitrary: b rule: decimal.induct)
  case (1 a)
  show ?case
  proof (cases "a < 10")
    case a: True
    show ?thesis
    proof (cases "b < 10")
      case True
      with a 1(2) show ?thesis
        by (simp add: decimal.simps [of a] decimal.simps [of b] digit_char_inject)
    next
      case False
      then have "2 \<le> length (decimal b)" by (simp add: decimal_length)
      moreover from a 1(2) have "length (decimal b) = 1"
        by (simp add: decimal.simps [of a] flip: 1(2))
      ultimately show ?thesis by simp
    qed
  next
    case a: False
    show ?thesis
    proof (cases "b < 10")
      case True
      from a have "2 \<le> length (decimal a)" by (simp add: decimal_length)
      moreover from True 1(2) have "length (decimal a) = 1"
        by (simp add: decimal.simps [of b])
      ultimately show ?thesis by simp
    next
      case False
      with a 1(2) have eq: "decimal (a div 10) = decimal (b div 10)"
        and d: "digit_char (a mod 10) = digit_char (b mod 10)"
        by (simp_all add: decimal.simps [of a] decimal.simps [of b])
      from 1(1) [OF a eq] have "a div 10 = b div 10" .
      moreover from d have "a mod 10 = b mod 10" by (simp add: digit_char_inject)
      ultimately have "10 * (a div 10) + a mod 10 = 10 * (b div 10) + b mod 10" by simp
      then show ?thesis by simp
    qed
  qed
qed

lemma hex_is_word: "is_hex c \<Longrightarrow> is_word c"
  by (auto simp: is_hex_def is_word_def is_digit_def in_range_def)

lemma hex_groups_shape:
  "hex_groups ns s \<Longrightarrow>
     list_all (\<lambda>c. is_word c \<or> c = hyphen) s \<and> length s = sum_list ns + (length ns - 1)"
proof (induction ns s rule: hex_groups.induct)
  case (1 s)
  then show ?case by simp
next
  case (2 n s)
  then show ?case by (auto simp: list_all_iff hex_is_word)
next
  case (3 n m ns s)
  define pre where "pre = take n s"
  from "3.prems" obtain rest where d: "drop n s = hyphen # rest" and r: "hex_groups (m # ns) rest"
    and t: "length pre = n" "list_all is_hex pre"
    by (auto simp: pre_def split: list.splits)
  from "3.IH" [OF d r] have ih: "list_all (\<lambda>c. is_word c \<or> c = hyphen) rest"
    "length rest = sum_list (m # ns) + (length (m # ns) - 1)" by simp_all
  have "take n s @ drop n s = s" by (rule append_take_drop_id)
  then have s: "s = pre @ hyphen # rest" using d by (simp add: pre_def)
  show ?case unfolding s using t ih by (auto simp: list_all_iff hex_is_word)
qed

lemma uuid_shape:
  assumes "is_uuid u"
  shows "length u = 36" and "u \<noteq> []" and "list_all (\<lambda>c. is_word c \<or> c = hyphen) u"
proof -
  from hex_groups_shape [OF assms [unfolded is_uuid_def]]
  show "length u = 36" and "list_all (\<lambda>c. is_word c \<or> c = hyphen) u" by simp_all
  then show "u \<noteq> []" by auto
qed

lemma split_at_first:
  "xs @ h # ys = xs' @ h # ys' \<Longrightarrow> h \<notin> set xs \<Longrightarrow> h \<notin> set xs' \<Longrightarrow> xs = xs' \<and> ys = ys'"
proof (induction xs arbitrary: xs')
  case Nil
  then show ?case by (cases xs') auto
next
  case (Cons a xs)
  then show ?case by (cases xs') auto
qed

lemma hyphen_not_digit: "\<not> is_digit hyphen"
  by (simp add: is_digit_def in_range_def)

lemma decimal_no_hyphen: "hyphen \<notin> set (decimal n)"
  using decimal_digits [of n] hyphen_not_digit by (auto simp: list_all_iff)

lemma upload_key_inject:
  assumes "upload_key t1 u1 s1 = upload_key t2 u2 s2" and "length u1 = length u2"
  shows "t1 = t2 \<and> u1 = u2 \<and> s1 = s2"
proof -
  from assms(1) have "decimal t1 @ hyphen # (u1 @ hyphen # s1) = decimal t2 @ hyphen # (u2 @ hyphen # s2)"
    by (simp add: upload_key_def)
  from split_at_first [OF this decimal_no_hyphen decimal_no_hyphen]
  have "decimal t1 = decimal t2" and "u1 @ hyphen # s1 = u2 @ hyphen # s2" by simp_all
  with assms(2) show ?thesis by (simp add: decimal_inject)
qed

lemma sample_uuid_ok: "is_uuid sample_uuid"
  by (simp add: is_uuid_def sample_uuid_def js_def is_hex_def in_range_def)

section \<open>The issued key\<close>

lemma upload_valid:
  assumes "s3Client w = Some client" and "json_body rq = Parsed b"
    and "property b (js ''filename'') = Some (JStr f)" and "f \<noteq> []"
    and "property b (js ''filetype'') = Some t" and "truthy t"
  shows "handleUploadUrl tmsg rt w rq e =
     (let key = upload_key (Date_now rt) (randomUUID rt) (sanitize f);
          command = \<lparr>Bucket = AWS_S3_BUCKET e, Key = key, ContentType = t\<rparr>;
          w' = w\<lparr>presigned := presigned w @ [command]\<rparr>
      in case getSignedUrl rt client command 3600 of
           Inl m \<Rightarrow> (upload_failed tmsg e (Error m), w')
         | Inr presignedUrl \<Rightarrow>
             (corsResponse
                (Json (defined_fields
                   [(js ''url'', Some (JStr presignedUrl)),
                    (js ''key'', Some (JStr key)),
                    (js ''bucket'', map_option JStr (AWS_S3_BUCKET e))]))
                e 200, w'))"
  using assms by (cases b) (simp_all add: handleUploadUrl_def Let_def)

lemma response_key_error [simp]:
  "response_key (corsResponse (Json [(js ''error'', v)]) e st) = None"
  "response_key (upload_failed tmsg e x) = None"
  by (simp_all add: response_key_def corsResponse_def upload_failed_def js_def)

lemma response_key_issued [simp]:
  "response_key (corsResponse (Json ((js ''url'', u) # (js ''key'', JStr k) # fs)) e st) = Some k"
  by (simp add: response_key_def corsResponse_def js_def)

lemma issued_key_origin:
  assumes "response_key (fst (handleUploadUrl tmsg rt w rq e)) = Some k"
  shows "\<exists>b f. json_body rq = Parsed b \<and> property b (js ''filename'') = Some (JStr f) \<and>
           k = upload_key (Date_now rt) (randomUUID rt) (sanitize f)"
proof (cases "s3Client w")
  case None
  with assms show ?thesis by (simp add: handleUploadUrl_def)
next
  case client: (Some client)
  show ?thesis
  proof (cases "json_body rq")
    case (Unparseable m)
    with assms client show ?thesis by (simp add: handleUploadUrl_def)
  next
    case (Parsed b)
    show ?thesis
    proof (cases "property b (js ''filename'')")
      case None
      with assms client Parsed show ?thesis
        by (cases b) (simp_all add: handleUploadUrl_def split: option.splits)
    next
      case fn: (Some filename)
      show ?thesis
      proof (cases "property b (js ''filetype'')")
        case None
        with assms client Parsed fn show ?thesis
          by (cases b) (simp_all add: handleUploadUrl_def)
      next
        case ft: (Some filetype)
        show ?thesis
        proof (cases "truthy filename \<and> truthy filetype")
          case False
          with assms client Parsed fn ft show ?thesis
            by (cases b) (auto simp: handleUploadUrl_def)
        next
          case True
          show ?thesis
          proof (cases filename)
            case (JStr f)
            have "handleUploadUrl tmsg rt w rq e =
              (let key = upload_key (Date_now rt) (randomUUID rt) (sanitize f);
                   command = \<lparr>Bucket = AWS_S3_BUCKET e, Key = key, ContentType = filetype\<rparr>;
                   w' = w\<lparr>presigned := presigned w @ [command]\<rparr>
               in case getSignedUrl rt client command 3600 of
                    Inl m \<Rightarrow> (upload_failed tmsg e (Error m), w')
                  | Inr presignedUrl \<Rightarrow>
                     (corsResponse
                        (Json (defined_fields
                           [(js ''url'', Some (JStr presignedUrl)),
                            (js ''key'', Some (JStr key)),
                            (js ''bucket'', map_option JStr (AWS_S3_BUCKET e))]))
                        e 200, w'))"
              using client Parsed fn ft True JStr by (intro upload_valid) simp_all
            with assms have "k = upload_key (Date_now rt) (randomUUID rt) (sanitize f)"
              by (simp add: Let_def split: sum.splits)
            with Parsed fn JStr show ?thesis by blast
          qed (use assms client Parsed fn ft True in
                \<open>(cases b; simp add: handleUploadUrl_def)+\<close>)
        qed
      qed
    qed
  qed
qed

lemma kept_underscore: "is_word underscore"
  by (simp add: is_word_def)

lemma sanitize_length: "length (sanitize f) = length f"
  by (simp add: sanitize_def replace_class_def)

lemma sanitize_nth:
  "i < length f \<Longrightarrow>
     sanitize f ! i =
       (if is_word (f ! i) \<or> is_space (f ! i) \<or> f ! i = full_stop \<or> f ! i = hyphen
        then f ! i else underscore)"
  by (simp add: sanitize_def replace_class_def)

lemma sanitize_chars:
  "c \<in> set (sanitize f) \<Longrightarrow> is_word c \<or> is_space c \<or> c = full_stop \<or> c = hyphen"
  using kept_underscore by (auto simp: sanitize_def replace_class_def)

lemma replace_class_all: "list_all p s \<Longrightarrow> p r \<Longrightarrow> list_all p (replace_class q r s)"
  by (induction s) (simp_all add: replace_class_def)

lemma underscore_not_line_terminator: "\<not> is_line_terminator underscore"
  by (simp add: is_line_terminator_def)

lemma sanitize_no_line_terminator:
  "list_all (\<lambda>c. \<not> is_line_terminator c) f \<Longrightarrow>
     list_all (\<lambda>c. \<not> is_line_terminator c) (sanitize f)"
  unfolding sanitize_def
  by (rule replace_class_all) (simp_all add: underscore_not_line_terminator)

lemmas sample_defs = sample_tmsg_def sample_env_def sample_world_def sample_runtime_def
  sample_uuid_def upload_request_def confirm_request_def key_body_def file_body_def

lemmas class_defs = js_def in_range_def is_digit_def is_word_def is_line_terminator_def is_space_def

text \<open>
  Claim C1, as the code has it. For every request with a non-empty string \<^verbatim>\<open>filename\<close> and a
  non-empty string \<^verbatim>\<open>filetype\<close>, served with the storage client at hand, the key handed to
  the signing call is \<^verbatim>\<open>uploads/\<close>, the timestamp, a hyphen, the UUID, a hyphen and a
  filename segment; a 200 response carries the same key. The segment has the length of the
  filename, keeps each code unit of \<^verbatim>\<open>[A-Za-z0-9_.-]\<close> and each white-space code unit
  (\<^verbatim>\<open>\s\<close>), and has \<^verbatim>\<open>_\<close> in place of every other one; so it holds nothing outside
  \<^verbatim>\<open>[A-Za-z0-9_.-]\<close> and white space.
\<close>

theorem issuer_key_shape:
  assumes "s3Client w = Some client" and "json_body rq = Parsed b"
    and "property b (js ''filename'') = Some (JStr f)" and "f \<noteq> []"
    and "property b (js ''filetype'') = Some (JStr t)" and "t \<noteq> []"
  shows "\<exists>seg.
     (let r = handleUploadUrl tmsg rt w rq e;
          key = js ''uploads/'' @ decimal (Date_now rt) @ hyphen # randomUUID rt @ hyphen # seg
      in map Key (presigned (snd r)) = map Key (presigned w) @ [key] \<and>
         (status (fst r) = 200 \<or> status (fst r) = 500) \<and>
         (status (fst r) = 200 \<longrightarrow> response_key (fst r) = Some key) \<and>
         length seg = length f \<and>
         (\<forall>i<length f. seg ! i =
            (if is_word (f ! i) \<or> is_space (f ! i) \<or> f ! i = full_stop \<or> f ! i = hyphen
             then f ! i else underscore)) \<and>
         (\<forall>c\<in>set seg. is_word c \<or> is_space c \<or> c = full_stop \<or> c = hyphen))"
proof -
  have t: "truthy (JStr t)" using assms(6) by simp
  note h = upload_valid [OF assms(1,2,3,4,5) t, of tmsg rt e]
  define r where "r = handleUploadUrl tmsg rt w rq e"
  define key where
    "key = js ''uploads/'' @ decimal (Date_now rt) @ hyphen # randomUUID rt @ hyphen # sanitize f"
  have k: "key = upload_key (Date_now rt) (randomUUID rt) (sanitize f)"
    by (simp add: key_def upload_key_def)
  have 1: "map Key (presigned (snd r)) = map Key (presigned w) @ [key]"
    unfolding r_def h k by (simp add: Let_def split: sum.splits)
  have 2: "status (fst r) = 200 \<or> status (fst r) = 500"
    unfolding r_def h by (simp add: Let_def corsResponse_def upload_failed_def split: sum.splits)
  have 3: "status (fst r) = 200 \<longrightarrow> response_key (fst r) = Some key"
    unfolding r_def h k
    by (simp add: Let_def split: sum.splits) (simp add: corsResponse_def upload_failed_def)
  have 4: "length (sanitize f) = length f" by (rule sanitize_length)
  have 5: "\<forall>i<length f. sanitize f ! i =
            (if is_word (f ! i) \<or> is_space (f ! i) \<or> f ! i = full_stop \<or> f ! i = hyphen
             then f ! i else underscore)"
    using sanitize_nth by blast
  have 6: "\<forall>c\<in>set (sanitize f). is_word c \<or> is_space c \<or> c = full_stop \<or> c = hyphen"
    using sanitize_chars by blast
  show ?thesis
    unfolding Let_def r_def [symmetric]
    by (rule exI [of _ "sanitize f"]) (use 1 2 3 4 5 6 in \<open>unfold key_def, blast\<close>)
qed

theorem issuer_key_shape_witness:
  "status (fst (handleUploadUrl sample_tmsg sample_runtime sample_world sample_upload
      sample_env)) = 200 \<and>
   (\<exists>seg.
      response_key (fst (handleUploadUrl sample_tmsg sample_runtime sample_world sample_upload
          sample_env)) =
        Some (js ''uploads/'' @ decimal (Date_now sample_runtime) @ hyphen #
                randomUUID sample_runtime @ hyphen # seg) \<and>
      length seg = 12 \<and> seg ! 2 = 0x20 \<and> seg ! 8 = full_stop)"
proof -
  have 1: "s3Client sample_world =
      Some \<lparr>region = js ''us-east-1'', accessKeyId = js ''AKIAEXAMPLE'',
            secretAccessKey = js ''secret''\<rparr>"
    by (simp add: sample_world_def)
  have 2: "json_body sample_upload =
      Parsed (JObj [(js ''filename'', JStr (js ''my photo.png'')),
                    (js ''filetype'', JStr (js ''image/png''))])"
    by (simp add: sample_upload_def upload_request_def file_body_def)
  have 3: "property (JObj [(js ''filename'', JStr (js ''my photo.png'')),
                        (js ''filetype'', JStr (js ''image/png''))]) (js ''filename'') =
      Some (JStr (js ''my photo.png''))"
    by simp
  have 4: "js ''my photo.png'' \<noteq> []" by (simp add: js_def)
  have 5: "property (JObj [(js ''filename'', JStr (js ''my photo.png'')),
                        (js ''filetype'', JStr (js ''image/png''))]) (js ''filetype'') =
      Some (JStr (js ''image/png''))"
    by (simp add: js_def)
  have 6: "js ''image/png'' \<noteq> []" by (simp add: js_def)
  have st: "status (fst (handleUploadUrl sample_tmsg sample_runtime sample_world sample_upload
      sample_env)) = 200"
    by (simp add: upload_valid [OF 1 2 3 4 5] js_def sample_runtime_def corsResponse_def Let_def)
  from issuer_key_shape [OF 1 2 3 4 5 6, of sample_tmsg sample_runtime sample_env]
  obtain seg where
    k: "status (fst (handleUploadUrl sample_tmsg sample_runtime sample_world sample_upload
          sample_env)) = 200 \<longrightarrow>
        response_key (fst (handleUploadUrl sample_tmsg sample_runtime sample_world sample_upload
          sample_env)) =
        Some (js ''uploads/'' @ decimal (Date_now sample_runtime) @ hyphen #
                randomUUID sample_runtime @ hyphen # seg)"
    and l: "length seg = length (js ''my photo.png'')"
    and n: "\<forall>i<length (js ''my photo.png''). seg ! i =
            (if is_word (js ''my photo.png'' ! i) \<or> is_space (js ''my photo.png'' ! i) \<or>
                js ''my photo.png'' ! i = full_stop \<or> js ''my photo.png'' ! i = hyphen
             then js ''my photo.png'' ! i else underscore)"
    unfolding Let_def by blast
  from l have "length seg = 12" by (simp add: js_def)
  moreover from n have "seg ! 2 = 0x20" by (simp add: class_defs)
  moreover from n have "seg ! 8 = full_stop" by (simp add: class_defs)
  ultimately show ?thesis using st k by blast
qed

text \<open>
  White space is in the class the pattern \<^verbatim>\<open>/[^\w\s.-]/g\<close> keeps: the filename
  \<^verbatim>\<open>my photo.png\<close> gives a key whose segment holds a space, which is outside
  \<^verbatim>\<open>[A-Za-z0-9_.-]\<close>.
\<close>

theorem issuer_keeps_space_counterexample:
  "response_key (fst (handleUploadUrl sample_tmsg sample_runtime sample_world
       (upload_request (file_body (JStr (js ''my photo.png'')) (JStr (js ''image/png''))))
       sample_env)) =
     Some (js ''uploads/1700000000000-123e4567-e89b-42d3-a456-426614174000-my photo.png'')
   \<and> js ''uploads/1700000000000-123e4567-e89b-42d3-a456-426614174000-my photo.png'' ! 61 = 0x20
   \<and> \<not> (is_word 0x20 \<or> 0x20 = full_stop \<or> 0x20 = hyphen)"
  by (simp add: handleUploadUrl_def sample_defs upload_key_def sanitize_def replace_class_def
      decimal.simps digit_char_def response_key_def corsResponse_def class_defs Let_def)

section \<open>Distinct keys\<close>

lemma other_uuid_ok: "is_uuid other_uuid"
  by (simp add: is_uuid_def other_uuid_def js_def is_hex_def in_range_def)

lemma sample_issue:
  "response_key (fst (handleUploadUrl sample_tmsg sample_runtime sample_world
       (upload_request (file_body (JStr (js ''my photo.png'')) (JStr (js ''image/png''))))
       sample_env)) =
     Some (upload_key 1700000000000 sample_uuid (sanitize (js ''my photo.png'')))"
  by (simp add: upload_valid [where client = "the (s3Client sample_world)"
          and b = "JObj [(js ''filename'', JStr (js ''my photo.png'')),
                         (js ''filetype'', JStr (js ''image/png''))]"
          and f = "js ''my photo.png''" and t = "JStr (js ''image/png'')"]
        sample_world_def upload_request_def file_body_def sample_runtime_def sample_env_def
        response_key_def corsResponse_def Let_def js_def)

lemma other_issue:
  "response_key (fst (handleUploadUrl sample_tmsg other_runtime sample_world
       (upload_request (file_body (JStr (js ''my photo.png'')) (JStr (js ''image/png''))))
       sample_env)) =
     Some (upload_key 1700000000000 other_uuid (sanitize (js ''my photo.png'')))"
  by (simp add: upload_valid [where client = "the (s3Client sample_world)"
          and b = "JObj [(js ''filename'', JStr (js ''my photo.png'')),
                         (js ''filetype'', JStr (js ''image/png''))]"
          and f = "js ''my photo.png''" and t = "JStr (js ''image/png'')"]
        sample_world_def upload_request_def file_body_def sample_runtime_def other_runtime_def
        sample_env_def response_key_def corsResponse_def Let_def js_def)

lemma sample_key:
  "upload_key 1700000000000 sample_uuid (sanitize (js ''my photo.png'')) =
     js ''uploads/1700000000000-123e4567-e89b-42d3-a456-426614174000-my photo.png''"
  by (simp add: upload_key_def sample_uuid_def sanitize_def replace_class_def decimal.simps
      digit_char_def class_defs)

text \<open>
  Claim C7. Two invocations of \<^verbatim>\<open>handleUploadUrl\<close> that each answer with a key, whatever their
  requests, environments and states, answer with different keys as soon as their draws of
  \<^verbatim>\<open>(Date.now(), crypto.randomUUID())\<close> differ, the UUIDs having the shape
  \<^verbatim>\<open>crypto.randomUUID\<close> gives them: the timestamp ends at the first hyphen of the key and the
  UUID is the 36 code units after it.
\<close>

theorem issued_keys_distinct:
  assumes "response_key (fst (handleUploadUrl tmsg1 rt1 w1 rq1 e1)) = Some k1"
    and "response_key (fst (handleUploadUrl tmsg2 rt2 w2 rq2 e2)) = Some k2"
    and "is_uuid (randomUUID rt1)" and "is_uuid (randomUUID rt2)"
    and "(Date_now rt1, randomUUID rt1) \<noteq> (Date_now rt2, randomUUID rt2)"
  shows "k1 \<noteq> k2"
proof
  assume eq: "k1 = k2"
  from issued_key_origin [OF assms(1)] obtain f1
    where k1: "k1 = upload_key (Date_now rt1) (randomUUID rt1) (sanitize f1)" by blast
  from issued_key_origin [OF assms(2)] obtain f2
    where k2: "k2 = upload_key (Date_now rt2) (randomUUID rt2) (sanitize f2)" by blast
  have "length (randomUUID rt1) = length (randomUUID rt2)"
    using uuid_shape(1) [OF assms(3)] uuid_shape(1) [OF assms(4)] by simp
  with eq k1 k2 have "Date_now rt1 = Date_now rt2 \<and> randomUUID rt1 = randomUUID rt2"
    using upload_key_inject [of "Date_now rt1" "randomUUID rt1" "sanitize f1"
        "Date_now rt2" "randomUUID rt2" "sanitize f2"] by simp
  with assms(5) show False by simp
qed

theorem issued_keys_distinct_witness:
  "response_key (fst (handleUploadUrl sample_tmsg sample_runtime sample_world
       (upload_request (file_body (JStr (js ''my photo.png'')) (JStr (js ''image/png''))))
       sample_env)) \<noteq>
   response_key (fst (handleUploadUrl sample_tmsg other_runtime sample_world
       (upload_request (file_body (JStr (js ''my photo.png'')) (JStr (js ''image/png''))))
       sample_env))"
proof -
  have 1: "is_uuid (randomUUID sample_runtime)"
    by (simp add: sample_runtime_def sample_uuid_ok)
  have 2: "is_uuid (randomUUID other_runtime)"
    by (simp add: other_runtime_def other_uuid_ok)
  have 3: "(Date_now sample_runtime, randomUUID sample_runtime) \<noteq>
        (Date_now other_runtime, randomUUID other_runtime)"
    by (simp add: sample_runtime_def other_runtime_def sample_uuid_def other_uuid_def js_def)
  from issued_keys_distinct [OF sample_issue other_issue 1 2 3]
  show ?thesis by (simp only: sample_issue other_issue option.inject not_False_eq_True)
qed

section \<open>From issue to confirmation\<close>

lemma literal_no_line_terminator: "list_all (\<lambda>c. \<not> is_line_terminator c) (js ''uploads/'')"
  by (simp add: js_def is_line_terminator_def)

lemma digit_not_line_terminator: "is_digit c \<Longrightarrow> \<not> is_line_terminator c"
  by (auto simp: is_digit_def in_range_def is_line_terminator_def)

lemma word_not_line_terminator: "is_word c \<or> c = hyphen \<Longrightarrow> \<not> is_line_terminator c"
  using word_not_space [of c] by (auto simp: is_space_def)

lemma key_rx_no_line_terminator:
  assumes "rx_test key_rx k"
  shows "list_all (\<lambda>c. \<not> is_line_terminator c) k"
proof -
  from assms obtain d w rest where k: "k = js ''uploads/'' @ d @ hyphen # w @ hyphen # rest"
    and d: "list_all is_digit d" and w: "list_all (\<lambda>c. is_word c \<or> c = hyphen) w"
    and r: "list_all (\<lambda>c. \<not> is_line_terminator c) rest"
    unfolding key_rx_words by blast
  from d have d': "list_all (\<lambda>c. \<not> is_line_terminator c) d"
    using digit_not_line_terminator by (auto simp: list_all_iff)
  from w have w': "list_all (\<lambda>c. \<not> is_line_terminator c) w"
    using word_not_line_terminator by (auto simp: list_all_iff)
  have h: "\<not> is_line_terminator hyphen" using word_not_line_terminator [of hyphen] by simp
  show ?thesis unfolding k using literal_no_line_terminator d' w' r h by simp
qed

lemma issued_key_accepted:
  assumes "is_uuid u" and "list_all (\<lambda>c. \<not> is_line_terminator c) f"
  shows "rx_test key_rx (upload_key t u (sanitize f))"
  unfolding key_rx_words upload_key_def
  using decimal_not_empty [of t] decimal_digits [of t] uuid_shape(2,3) [OF assms(1)]
    sanitize_no_line_terminator [OF assms(2)]
  by blast

lemma upload_key_not_empty: "upload_key t u s \<noteq> []"
  by (simp add: upload_key_def js_def)

text \<open>
  Claim C3, as the code has it. A key that \<^verbatim>\<open>handleUploadUrl\<close> answers with, for a filename
  without line terminator and a UUID of the shape \<^verbatim>\<open>crypto.randomUUID\<close> gives, is confirmed by
  \<^verbatim>\<open>handleConfirmUpload\<close>: status 200, \<^verbatim>\<open>success: true\<close>, and the \<^verbatim>\<open>imageUrl\<close>
  \<^verbatim>\<open>https://<bucket>.s3.amazonaws.com/<key>\<close>. The witness is the filename \<^verbatim>\<open>my photo.png\<close>,
  whose key ends in \<^verbatim>\<open>-my photo.png\<close>.
\<close>

theorem issued_key_confirmed:
  assumes "response_key (fst (handleUploadUrl tmsg rt w rq e)) = Some k"
    and "is_uuid (randomUUID rt)"
    and "json_body rq = Parsed b" and "property b (js ''filename'') = Some (JStr f)"
    and "list_all (\<lambda>c. \<not> is_line_terminator c) f"
    and "json_body rq' = Parsed b'" and "property b' (js ''key'') = Some (JStr k)"
    and "AWS_S3_BUCKET e' = Some bucket"
  shows "handleConfirmUpload tmsg' rq' e' =
     corsResponse
       (Json [(js ''success'', JBool True),
              (js ''message'', JStr (js ''Upload confirmed!'')),
              (js ''imageUrl'', JStr (js ''https://'' @ bucket @ js ''.s3.amazonaws.com/'' @ k))])
       e' 200"
proof -
  from issued_key_origin [OF assms(1)] assms(3,4)
  have k: "k = upload_key (Date_now rt) (randomUUID rt) (sanitize f)" by simp
  have "rx_test key_rx k" unfolding k by (rule issued_key_accepted [OF assms(2,5)])
  moreover have "k \<noteq> []" unfolding k by (rule upload_key_not_empty)
  ultimately show ?thesis
    using confirm_string_key [OF assms(6,7), of tmsg' e'] assms(8) by simp
qed

theorem issued_key_confirmed_witness:
  "handleConfirmUpload sample_tmsg
     (confirm_request (key_body (JStr
        (js ''uploads/1700000000000-123e4567-e89b-42d3-a456-426614174000-my photo.png''))))
     sample_env =
   corsResponse
     (Json [(js ''success'', JBool True),
            (js ''message'', JStr (js ''Upload confirmed!'')),
            (js ''imageUrl'', JStr (js ''https://'' @ js ''my-bucket'' @ js ''.s3.amazonaws.com/'' @
               js ''uploads/1700000000000-123e4567-e89b-42d3-a456-426614174000-my photo.png''))])
     sample_env 200"
proof (rule issued_key_confirmed)
  show "response_key (fst (handleUploadUrl sample_tmsg sample_runtime sample_world
       (upload_request (file_body (JStr (js ''my photo.png'')) (JStr (js ''image/png''))))
       sample_env)) =
     Some (js ''uploads/1700000000000-123e4567-e89b-42d3-a456-426614174000-my photo.png'')"
    using sample_issue by (simp only: sample_key)
  show "is_uuid (randomUUID sample_runtime)"
    by (simp add: sample_runtime_def sample_uuid_ok)
  show "json_body (upload_request (file_body (JStr (js ''my photo.png'')) (JStr (js ''image/png'')))) =
      Parsed (JObj [(js ''filename'', JStr (js ''my photo.png'')),
                    (js ''filetype'', JStr (js ''image/png''))])"
    by (simp add: upload_request_def file_body_def)
  show "property (JObj [(js ''filename'', JStr (js ''my photo.png'')),
                        (js ''filetype'', JStr (js ''image/png''))]) (js ''filename'') =
      Some (JStr (js ''my photo.png''))"
    by simp
  show "list_all (\<lambda>c. \<not> is_line_terminator c) (js ''my photo.png'')"
    by (simp add: js_def is_line_terminator_def)
  show "json_body (confirm_request (key_body (JStr
        (js ''uploads/1700000000000-123e4567-e89b-42d3-a456-426614174000-my photo.png'')))) =
      Parsed (JObj [(js ''key'', JStr
        (js ''uploads/1700000000000-123e4567-e89b-42d3-a456-426614174000-my photo.png''))])"
    by (simp add: confirm_request_def key_body_def)
  show "property (JObj [(js ''key'', JStr
        (js ''uploads/1700000000000-123e4567-e89b-42d3-a456-426614174000-my photo.png''))])
      (js ''key'') =
      Some (JStr (js ''uploads/1700000000000-123e4567-e89b-42d3-a456-426614174000-my photo.png''))"
    by simp
  show "AWS_S3_BUCKET sample_env = Some (js ''my-bucket'')"
    by (simp add: sample_env_def)
qed

text \<open>
  The claim as stated fails twice. The key for \<^verbatim>\<open>my photo.png\<close> keeps the space, so it is
  not of the form \<^verbatim>\<open>uploads/<digits>-<uuid>-my_photo.png\<close>. And a line feed in the filename is
  white space, which the issuer keeps, but \<^verbatim>\<open>.*$\<close> does not run over it: the key issued for
  the filename \<^verbatim>\<open>a\<close>, line feed, \<^verbatim>\<open>.png\<close> is answered 400 by \<^verbatim>\<open>handleConfirmUpload\<close>.
\<close>

theorem round_trip_counterexample:
  "response_key (fst (handleUploadUrl sample_tmsg sample_runtime sample_world
       (upload_request (file_body (JStr (js ''my photo.png'')) (JStr (js ''image/png''))))
       sample_env)) =
     Some (js ''uploads/1700000000000-123e4567-e89b-42d3-a456-426614174000-my photo.png'')
   \<and> js ''uploads/1700000000000-123e4567-e89b-42d3-a456-426614174000-my photo.png'' \<noteq>
       js ''uploads/1700000000000-123e4567-e89b-42d3-a456-426614174000-my_photo.png''
   \<and> response_key (fst (handleUploadUrl sample_tmsg sample_runtime sample_world
       (upload_request (file_body (JStr (js ''a'' @ 0x0A # js ''.png'')) (JStr (js ''image/png''))))
       sample_env)) =
     Some (js ''uploads/1700000000000-123e4567-e89b-42d3-a456-426614174000-a'' @ 0x0A # js ''.png'')
   \<and> handleConfirmUpload sample_tmsg
       (confirm_request (key_body (JStr
          (js ''uploads/1700000000000-123e4567-e89b-42d3-a456-426614174000-a'' @ 0x0A # js ''.png''))))
       sample_env =
     corsResponse (Json [(js ''error'', JStr (js ''Invalid key format''))]) sample_env 400"
  by (simp add: handleUploadUrl_def handleConfirmUpload_def sample_defs upload_key_def
      sanitize_def replace_class_def decimal.simps digit_char_def response_key_def
      corsResponse_def class_defs Let_def key_rx_def RPlus_def RChar_def)

section \<open>The confirmation result\<close>

lemma status_corsResponse [simp]: "status (corsResponse b e st) = st"
  by (simp add: corsResponse_def)

lemma payload_corsResponse [simp]: "payload (corsResponse b e st) = b"
  by (simp add: corsResponse_def)

lemma status_failed [simp]:
  "status (confirm_failed tmsg e x) = 500" "status (upload_failed tmsg e x) = 500"
  by (simp_all add: confirm_failed_def upload_failed_def)

lemma confirm_accepted:
  assumes "json_body rq = Parsed b" and "property b (js ''key'') = Some key"
    and "status (handleConfirmUpload tmsg rq e) = 200"
  shows "\<exists>k. to_string key = Inr k \<and>
           handleConfirmUpload tmsg rq e =
             corsResponse
               (Json [(js ''success'', JBool True),
                      (js ''message'', JStr (js ''Upload confirmed!'')),
                      (js ''imageUrl'',
                       JStr (js ''https://'' @ template (AWS_S3_BUCKET e) @
                             js ''.s3.amazonaws.com/'' @ k))])
               e 200"
proof -
  from assms(2) have "b \<noteq> JNull" by auto
  with assms show ?thesis
    by (cases b) (auto simp: handleConfirmUpload_def split: if_splits sum.splits)
qed

lemma short_key_status:
  "status (handleConfirmUpload sample_tmsg (confirm_request (key_body (JStr (js ''uploads/1-a-b''))))
      sample_env) = 200"
  by (simp add: handleConfirmUpload_def confirm_request_def key_body_def key_rx_def pattern_defs)

text \<open>
  Claim C4. Whenever \<^verbatim>\<open>handleConfirmUpload\<close> answers 200 to a request that carries a key, with
  the bucket configured, the body is \<^verbatim>\<open>success: true\<close>, the message \<^verbatim>\<open>Upload confirmed!\<close> and
  an \<^verbatim>\<open>imageUrl\<close> that is exactly \<^verbatim>\<open>https://\<close>, the bucket, \<^verbatim>\<open>.s3.amazonaws.com/\<close> and the key
  as a string (a string key is itself).
\<close>

theorem confirmation_image_url:
  assumes "json_body rq = Parsed b" and "property b (js ''key'') = Some key"
    and "AWS_S3_BUCKET e = Some bucket"
    and "status (handleConfirmUpload tmsg rq e) = 200"
  shows "\<exists>k. to_string key = Inr k \<and> (\<forall>s. key = JStr s \<longrightarrow> k = s) \<and>
           payload (handleConfirmUpload tmsg rq e) =
             Json [(js ''success'', JBool True),
                   (js ''message'', JStr (js ''Upload confirmed!'')),
                   (js ''imageUrl'',
                    JStr (js ''https://'' @ bucket @ js ''.s3.amazonaws.com/'' @ k))]"
proof -
  from confirm_accepted [OF assms(1,2,4)] obtain k where k: "to_string key = Inr k"
    and r: "handleConfirmUpload tmsg rq e =
             corsResponse
               (Json [(js ''success'', JBool True),
                      (js ''message'', JStr (js ''Upload confirmed!'')),
                      (js ''imageUrl'',
                       JStr (js ''https://'' @ template (AWS_S3_BUCKET e) @
                             js ''.s3.amazonaws.com/'' @ k))])
               e 200"
    by blast
  from k have "\<forall>s. key = JStr s \<longrightarrow> k = s" by auto
  with k r assms(3) show ?thesis by simp
qed

theorem confirmation_image_url_witness:
  "status (handleConfirmUpload sample_tmsg (confirm_request (key_body (JStr (js ''uploads/1-a-b''))))
      sample_env) = 200 \<and>
   payload (handleConfirmUpload sample_tmsg
      (confirm_request (key_body (JStr (js ''uploads/1-a-b'')))) sample_env) =
     Json [(js ''success'', JBool True),
           (js ''message'', JStr (js ''Upload confirmed!'')),
           (js ''imageUrl'',
            JStr (js ''https://'' @ js ''my-bucket'' @ js ''.s3.amazonaws.com/'' @
                  js ''uploads/1-a-b''))]"
proof -
  have 1: "json_body (confirm_request (key_body (JStr (js ''uploads/1-a-b'')))) =
      Parsed (JObj [(js ''key'', JStr (js ''uploads/1-a-b''))])"
    by (simp add: confirm_request_def key_body_def)
  have 2: "property (JObj [(js ''key'', JStr (js ''uploads/1-a-b''))]) (js ''key'') =
      Some (JStr (js ''uploads/1-a-b''))"
    by simp
  have 3: "AWS_S3_BUCKET sample_env = Some (js ''my-bucket'')"
    by (simp add: sample_env_def)
  from confirmation_image_url [OF 1 2 3 short_key_status] short_key_status
  show ?thesis by auto
qed

section \<open>Missing parameters\<close>

lemma upload_missing:
  assumes "s3Client w = Some client" and "json_body rq = Parsed b" and "b \<noteq> JNull"
    and "falsy (property b (js ''filename'')) \<or> falsy (property b (js ''filetype''))"
  shows "handleUploadUrl tmsg rt w rq e =
     (corsResponse
        (Json [(js ''error'', JStr (js ''Missing required parameters: filename and filetype''))])
        e 400, w)"
proof (cases "property b (js ''filename'')")
  case None
  with assms(1,2,3) show ?thesis by (cases b) (simp_all add: handleUploadUrl_def)
next
  case fn: (Some filename)
  show ?thesis
  proof (cases "property b (js ''filetype'')")
    case None
    with assms(1,2,3) fn show ?thesis by (cases b) (simp_all add: handleUploadUrl_def)
  next
    case (Some filetype)
    with assms fn have "\<not> truthy filename \<or> \<not> truthy filetype" by simp
    with assms(1,2,3) fn Some show ?thesis by (cases b) (auto simp: handleUploadUrl_def)
  qed
qed

lemma upload_no_client:
  "s3Client w = None \<Longrightarrow>
     handleUploadUrl tmsg rt w rq e =
       (corsResponse
          (Json [(js ''error'', JStr (js ''Failed to generate upload URL'')),
                 (js ''details'',
                  JStr (js ''S3 client could not be initialized. Check AWS credentials.''))])
          e 500, w)"
  by (simp add: handleUploadUrl_def upload_failed_def)

lemma upload_null_body:
  "s3Client w = Some client \<Longrightarrow> json_body rq = Parsed JNull \<Longrightarrow>
     handleUploadUrl tmsg rt w rq e = (upload_failed tmsg e (TypeError DestructureNull), w)"
  by (simp add: handleUploadUrl_def)

lemma upload_unparseable:
  "s3Client w = Some client \<Longrightarrow> json_body rq = Unparseable m \<Longrightarrow>
     handleUploadUrl tmsg rt w rq e = (upload_failed tmsg e (SyntaxError m), w)"
  by (simp add: handleUploadUrl_def)

text \<open>
  Claim C5, as the code has it. A request whose body parses and whose \<^verbatim>\<open>filename\<close> or
  \<^verbatim>\<open>filetype\<close> is missing or falsy never reaches the signing call, whatever the state; and
  when the storage client is at hand and the body is not \<^verbatim>\<open>null\<close>, the answer is 400 with
  \<^verbatim>\<open>Missing required parameters: filename and filetype\<close>, the state unchanged.
\<close>

theorem missing_parameters:
  assumes "json_body rq = Parsed b"
    and "falsy (property b (js ''filename'')) \<or> falsy (property b (js ''filetype''))"
  shows "presigned (snd (handleUploadUrl tmsg rt w rq e)) = presigned w \<and>
         (s3Client w \<noteq> None \<and> b \<noteq> JNull \<longrightarrow>
            handleUploadUrl tmsg rt w rq e =
              (corsResponse
                 (Json [(js ''error'',
                         JStr (js ''Missing required parameters: filename and filetype''))])
                 e 400, w))"
proof (cases "s3Client w")
  case None
  then show ?thesis by (simp add: upload_no_client)
next
  case (Some client)
  show ?thesis
  proof (cases "b = JNull")
    case True
    with Some assms(1) show ?thesis by (simp add: upload_null_body)
  next
    case False
    with Some assms show ?thesis by (simp add: upload_missing)
  qed
qed

theorem missing_parameters_witness:
  "falsy (property (JObj [(js ''filename'', JStr [])]) (js ''filetype'')) \<and>
   handleUploadUrl sample_tmsg sample_runtime sample_world
     (upload_request (Parsed (JObj [(js ''filename'', JStr [])]))) sample_env =
     (corsResponse
        (Json [(js ''error'', JStr (js ''Missing required parameters: filename and filetype''))])
        sample_env 400, sample_world)"
proof -
  have 1: "json_body (upload_request (Parsed (JObj [(js ''filename'', JStr [])]))) =
      Parsed (JObj [(js ''filename'', JStr [])])"
    by (simp add: upload_request_def)
  have 2: "falsy (property (JObj [(js ''filename'', JStr [])]) (js ''filetype''))"
    by (simp add: js_def)
  have 3: "s3Client sample_world \<noteq> None \<and> JObj [(js ''filename'', JStr [])] \<noteq> JNull"
    by (simp add: sample_world_def)
  from missing_parameters [OF 1 disjI2 [OF 2], of sample_tmsg sample_runtime sample_world sample_env] 2 3
  show ?thesis by blast
qed

text \<open>
  The check of the storage client comes first in \<^verbatim>\<open>handleUploadUrl\<close>: without the
  credentials, the request \<^verbatim>\<open>{filename: ""}\<close> is answered 500, not 400.
\<close>

theorem missing_parameters_counterexample:
  "fetch sample_tmsg sample_runtime module_init
     (upload_request (Parsed (JObj [(js ''filename'', JStr [])]))) bare_env =
     (corsResponse
        (Json [(js ''error'', JStr (js ''Failed to generate upload URL'')),
               (js ''details'',
                JStr (js ''S3 client could not be initialized. Check AWS credentials.''))])
        bare_env 500, module_init)"
  by (simp add: fetch_def init_client_def module_init_def bare_env_def upload_request_def
      handleUploadUrl_def upload_failed_def js_def)

section \<open>A worker without credentials\<close>

lemma init_client_disabled:
  assumes "s3Client w = None"
    and "AWS_ACCESS_KEY_ID e = None \<or> AWS_SECRET_ACCESS_KEY e = None \<or> AWS_REGION e = None"
  shows "init_client w e = w"
  using assms by (auto simp: init_client_def split: option.splits)

lemma fetch_disabled:
  assumes "s3Client w = None"
    and "AWS_ACCESS_KEY_ID e = None \<or> AWS_SECRET_ACCESS_KEY e = None \<or> AWS_REGION e = None"
  shows "snd (fetch tmsg rt w rq e) = w"
    and "pathname rq = js ''/get-upload-url'' \<and> request_method rq = js ''POST'' \<Longrightarrow>
         fst (fetch tmsg rt w rq e) =
           corsResponse
             (Json [(js ''error'', JStr (js ''Failed to generate upload URL'')),
                    (js ''details'',
                     JStr (js ''S3 client could not be initialized. Check AWS credentials.''))])
             e 500"
proof -
  note i = init_client_disabled [OF assms]
  show "snd (fetch tmsg rt w rq e) = w"
    by (simp add: fetch_def i upload_no_client [OF assms(1)])
  assume "pathname rq = js ''/get-upload-url'' \<and> request_method rq = js ''POST''"
  moreover have "js ''POST'' \<noteq> js ''OPTIONS''" by (simp add: js_def)
  ultimately show "fst (fetch tmsg rt w rq e) =
           corsResponse
             (Json [(js ''error'', JStr (js ''Failed to generate upload URL'')),
                    (js ''details'',
                     JStr (js ''S3 client could not be initialized. Check AWS credentials.''))])
             e 500"
    by (simp add: fetch_def i upload_no_client [OF assms(1)])
qed

lemma length_serve: "length (serve tmsg e w rs) = length rs"
  by (induction rs arbitrary: w) (auto simp: split_def Let_def)

lemma serve_disabled:
  assumes "AWS_ACCESS_KEY_ID e = None \<or> AWS_SECRET_ACCESS_KEY e = None \<or> AWS_REGION e = None"
    and "s3Client w = None" and "i < length rs"
  shows "s3Client (snd (serve tmsg e w rs ! i)) = None \<and>
         (pathname (snd (rs ! i)) = js ''/get-upload-url'' \<and>
          request_method (snd (rs ! i)) = js ''POST'' \<longrightarrow>
            fst (serve tmsg e w rs ! i) =
              corsResponse
                (Json [(js ''error'', JStr (js ''Failed to generate upload URL'')),
                       (js ''details'',
                        JStr (js ''S3 client could not be initialized. Check AWS credentials.''))])
                e 500)"
  using assms(2,3)
proof (induction rs arbitrary: w i)
  case Nil
  then show ?case by simp
next
  case (Cons a rs)
  obtain rt rq where a: "a = (rt, rq)" by (cases a)
  note f = fetch_disabled [OF Cons.prems(1) assms(1), where tmsg = tmsg and rt = rt and rq = rq]
  show ?case
  proof (cases i)
    case 0
    with a f Cons.prems(1) show ?thesis by (simp add: split_def Let_def)
  next
    case (Suc j)
    with Cons.prems(2) have "j < length rs" by simp
    from Cons.IH [OF Cons.prems(1) this] a f(1) Suc show ?thesis
      by (simp add: split_def Let_def)
  qed
qed

text \<open>
  Claim C6. In a worker whose environment lacks the access key, the secret key or the
  region, started from the module's initial state and serving any sequence of requests,
  the storage client is never built, and every \<^verbatim>\<open>POST /get-upload-url\<close> is answered 500 with
  an \<^verbatim>\<open>error\<close> and the \<^verbatim>\<open>details\<close> of the missing client.
\<close>

theorem issuer_disabled:
  assumes "AWS_ACCESS_KEY_ID e = None \<or> AWS_SECRET_ACCESS_KEY e = None \<or> AWS_REGION e = None"
  shows "\<forall>i<length rs.
           s3Client (snd (serve tmsg e module_init rs ! i)) = None \<and>
           (pathname (snd (rs ! i)) = js ''/get-upload-url'' \<and>
            request_method (snd (rs ! i)) = js ''POST'' \<longrightarrow>
              fst (serve tmsg e module_init rs ! i) =
                corsResponse
                  (Json [(js ''error'', JStr (js ''Failed to generate upload URL'')),
                         (js ''details'',
                          JStr (js ''S3 client could not be initialized. Check AWS credentials.''))])
                  e 500)"
proof (intro allI impI)
  fix i assume "i < length rs"
  moreover have "s3Client module_init = None" by (simp add: module_init_def)
  ultimately show "s3Client (snd (serve tmsg e module_init rs ! i)) = None \<and>
           (pathname (snd (rs ! i)) = js ''/get-upload-url'' \<and>
            request_method (snd (rs ! i)) = js ''POST'' \<longrightarrow>
              fst (serve tmsg e module_init rs ! i) =
                corsResponse
                  (Json [(js ''error'', JStr (js ''Failed to generate upload URL'')),
                         (js ''details'',
                          JStr (js ''S3 client could not be initialized. Check AWS credentials.''))])
                  e 500)"
    using serve_disabled [OF assms] by blast
qed

theorem issuer_disabled_witness:
  "AWS_REGION region_missing_env = None \<and>
   s3Client (snd (serve sample_tmsg region_missing_env module_init
        [(sample_runtime, sample_upload), (other_runtime, sample_upload)] ! 1)) = None \<and>
   fst (serve sample_tmsg region_missing_env module_init
        [(sample_runtime, sample_upload), (other_runtime, sample_upload)] ! 1) =
     corsResponse
       (Json [(js ''error'', JStr (js ''Failed to generate upload URL'')),
              (js ''details'',
               JStr (js ''S3 client could not be initialized. Check AWS credentials.''))])
       region_missing_env 500"
proof -
  have 1: "AWS_REGION region_missing_env = None" by (simp add: region_missing_env_def)
  then have 2: "AWS_ACCESS_KEY_ID region_missing_env = None \<or>
      AWS_SECRET_ACCESS_KEY region_missing_env = None \<or> AWS_REGION region_missing_env = None"
    by simp
  have 3: "(1::nat) < length [(sample_runtime, sample_upload), (other_runtime, sample_upload)]"
    by simp
  have 4: "pathname (snd ([(sample_runtime, sample_upload), (other_runtime, sample_upload)] ! 1)) =
             js ''/get-upload-url'' \<and>
           request_method (snd ([(sample_runtime, sample_upload), (other_runtime, sample_upload)] ! 1)) =
             js ''POST''"
    by (simp add: sample_upload_def upload_request_def)
  from issuer_disabled [OF 2, of "[(sample_runtime, sample_upload), (other_runtime, sample_upload)]"
      sample_tmsg] 1 3 4
  show ?thesis by blast
qed

section \<open>Response headers\<close>

lemma literals_differ:
  "js ''POST'' \<noteq> js ''OPTIONS''" "js ''/confirm-upload'' \<noteq> js ''/get-upload-url''"
  by (simp_all add: js_def)

lemma fetch_confirm:
  assumes "request_method rq = js ''POST''" and "pathname rq = js ''/confirm-upload''"
  shows "fetch tmsg rt w rq e = (handleConfirmUpload tmsg rq e, init_client w e)"
  using assms literals_differ by (simp add: fetch_def)

lemma fetch_upload:
  assumes "request_method rq = js ''POST''" and "pathname rq = js ''/get-upload-url''"
  shows "fetch tmsg rt w rq e = handleUploadUrl tmsg rt (init_client w e) rq e"
  using assms literals_differ by (simp add: fetch_def)


lemma or_default_origin: "or_default (ALLOWED_ORIGIN e) (js ''*'') = configured_origin e"
  by (simp add: or_default_def configured_origin_def split: option.splits)




lemma cors_names_and_values:
  "byte_string (js ''Content-Type'')" "byte_string (js ''Access-Control-Allow-Origin'')"
  "byte_string (js ''Cache-Control'')" "byte_string (js ''application/json'')"
  "byte_string (js ''private, no-cache'')" "byte_string (js ''no-store'')"
  "header_name (js ''Content-Type'')" "header_name (js ''Access-Control-Allow-Origin'')"
  "header_name (js ''Cache-Control'')"
  "normalize_value (js ''application/json'') = js ''application/json''"
  "normalize_value (js ''private, no-cache'') = js ''private, no-cache''"
  "normalize_value (js ''no-store'') = js ''no-store''"
  "header_value (js ''application/json'')" "header_value (js ''private, no-cache'')"
  "header_value (js ''no-store'')"
  "has_header [(js ''Content-Type'', a), (js ''Access-Control-Allow-Origin'', b),
               (js ''Cache-Control'', c)] (js ''Content-Type'')"
  by (simp_all add: byte_string_def header_name_def token_char_def in_range_def
      normalize_value_def http_whitespace_def header_value_def has_header_def js_def)

lemma new_Response_cors:
  assumes "st = 200 \<or> st = 400 \<or> st = 500"
  shows "new_Response (corsResponse b e st) =
     (if byte_string (configured_origin e) \<and> header_value (normalize_value (configured_origin e))
      then Inr \<lparr>status = st,
                headers =
                  [(js ''Content-Type'', js ''application/json''),
                   (js ''Access-Control-Allow-Origin'', normalize_value (configured_origin e)),
                   (js ''Cache-Control'',
                    if st = 200 then js ''private, no-cache'' else js ''no-store'')],
                payload = b\<rparr>
      else Inl ResponseTypeError)"
  using assms
  by (auto simp: new_Response_def corsResponse_def or_default_origin cors_names_and_values
      null_body_status_def)

lemma catch_cannot_answer:
  assumes "st = 200 \<or> st = 400 \<or> st = 500" and "new_Response (corsResponse b e st) = Inl x"
  shows "new_Response (corsResponse b' e 500) = Inl x"
  using assms by (simp add: new_Response_cors split: if_splits)

lemma confirm_is_corsResponse:
  "\<exists>b st. handleConfirmUpload tmsg rq e = corsResponse b e st \<and> (st = 200 \<or> st = 400 \<or> st = 500)"
proof (cases "json_body rq")
  case (Unparseable m)
  then show ?thesis by (simp add: handleConfirmUpload_def confirm_failed_def) blast
next
  case (Parsed b)
  show ?thesis
  proof (cases "property b (js ''key'')")
    case None
    with Parsed show ?thesis
      by (cases b) (simp_all add: handleConfirmUpload_def confirm_failed_def, blast+)
  next
    case (Some key)
    then have "b \<noteq> JNull" by auto
    with Parsed Some show ?thesis
      by (cases b; cases "to_string key")
        (simp_all add: handleConfirmUpload_def confirm_failed_def, blast+)
  qed
qed

lemma upload_is_corsResponse:
  "\<exists>b st. fst (handleUploadUrl tmsg rt w rq e) = corsResponse b e st \<and>
     (st = 200 \<or> st = 400 \<or> st = 500)"
proof (cases "s3Client w")
  case None
  then show ?thesis by (simp add: upload_no_client) blast
next
  case client: (Some client)
  show ?thesis
  proof (cases "json_body rq")
    case (Unparseable m)
    with client show ?thesis by (simp add: upload_unparseable upload_failed_def) blast
  next
    case (Parsed b)
    show ?thesis
    proof (cases "b = JNull")
      case True
      with client Parsed show ?thesis by (simp add: upload_null_body upload_failed_def) blast
    next
      case nn: False
      show ?thesis
      proof (cases "falsy (property b (js ''filename'')) \<or> falsy (property b (js ''filetype''))")
        case True
        from upload_missing [OF client Parsed nn True] show ?thesis by simp blast
      next
        case False
        then obtain filename filetype where p: "property b (js ''filename'') = Some filename"
            "property b (js ''filetype'') = Some filetype" "truthy filename" "truthy filetype"
          by (cases "property b (js ''filename'')"; cases "property b (js ''filetype'')") auto
        show ?thesis
        proof (cases filename)
          case (JStr f)
          with p have "f \<noteq> []" by simp
          from upload_valid [OF client Parsed p(1) [unfolded JStr] this p(2) p(4)]
          show ?thesis
            by (simp add: Let_def upload_failed_def split: sum.splits) blast
        qed (use client Parsed nn p in
              \<open>(cases b; simp add: handleUploadUrl_def upload_failed_def; blast)+\<close>)
      qed
    qed
  qed
qed

lemma endpoint_is_corsResponse:
  assumes "request_method rq = js ''POST''"
    and "pathname rq = js ''/get-upload-url'' \<or> pathname rq = js ''/confirm-upload''"
  shows "\<exists>b st. fst (fetch tmsg rt w rq e) = corsResponse b e st \<and>
           (st = 200 \<or> st = 400 \<or> st = 500)"
  using assms(2)
proof
  assume "pathname rq = js ''/get-upload-url''"
  then show ?thesis using upload_is_corsResponse by (simp add: fetch_upload [OF assms(1)])
next
  assume "pathname rq = js ''/confirm-upload''"
  then show ?thesis using confirm_is_corsResponse by (simp add: fetch_confirm [OF assms(1)])
qed

lemma fst_respond: "fst (respond tmsg rt w rq e) = new_Response (fst (fetch tmsg rt w rq e))"
  by (simp add: respond_def split_def Let_def)







lemma line_feed_origin_rejected:
  "fst (respond sample_tmsg sample_runtime module_init
       (confirm_request (key_body (JStr (js ''uploads/1-a-b'')))) line_feed_origin_env) =
     Inl ResponseTypeError"
proof -
  obtain b st where i: "fst (fetch sample_tmsg sample_runtime module_init
       (confirm_request (key_body (JStr (js ''uploads/1-a-b'')))) line_feed_origin_env) =
       corsResponse b line_feed_origin_env st" and st: "st = 200 \<or> st = 400 \<or> st = 500"
    using endpoint_is_corsResponse [of "confirm_request (key_body (JStr (js ''uploads/1-a-b'')))"
        sample_tmsg sample_runtime module_init line_feed_origin_env]
    by (auto simp: confirm_request_def)
  have "\<not> header_value (normalize_value (configured_origin line_feed_origin_env))"
    by (simp add: configured_origin_def line_feed_origin_env_def normalize_value_def
        http_whitespace_def header_value_def js_def)
  then show ?thesis unfolding fst_respond i new_Response_cors [OF st] by simp
qed



section \<open>Bodies that cannot be read\<close>








section \<open>Confirmation has no effect\<close>






end
